theory Spec2Isabelle
  imports Complex_Main "HOL-Library.Monad_Syntax"
begin

section \<open>Gaussian-process motion fit: energy, gradient and parameter codec\<close>

text \<open>
  A shallow embedding of \<^verbatim>\<open>src/jaz/gp_motion_fit.cpp\<close>. The C++ type \<^verbatim>\<open>double\<close> is
  read as \<^typ>\<open>real\<close>, so every statement below is about exact real arithmetic. Sizes and
  loop counters (\<^verbatim>\<open>int\<close> in the source, never negative there) are natural numbers; the
  loop bounds \<^verbatim>\<open>fc-1\<close> and \<^verbatim>\<open>fc-2\<close> only ever bound a counter from above, where the
  truncating subtraction of \<^typ>\<open>nat\<close> yields the same (possibly empty) range.

  An access to a \<^verbatim>\<open>std::vector\<close> outside its range is undefined behaviour in C++.
  Every function that indexes a vector therefore returns an \<^typ>\<open>'a option\<close>, and
  \<^term>\<open>None\<close> is the outcome of an access out of range.
\<close>

subsection \<open>Vectors and checked element access\<close>

type_synonym d2Vector = "real \<times> real"

definition norm2 :: "d2Vector \<Rightarrow> real" where
  "norm2 v = fst v * fst v + snd v * snd v"

definition vminus :: "d2Vector \<Rightarrow> d2Vector \<Rightarrow> d2Vector" where
  "vminus a b = (fst a - fst b, snd a - snd b)"

definition vplus :: "d2Vector \<Rightarrow> d2Vector \<Rightarrow> d2Vector" where
  "vplus a b = (fst a + fst b, snd a + snd b)"

definition vget :: "'a list \<Rightarrow> nat \<Rightarrow> 'a option" where
  "vget xs i = (if i < length xs then Some (xs ! i) else None)"

definition vput :: "'a list \<Rightarrow> nat \<Rightarrow> 'a \<Rightarrow> 'a list option" where
  "vput xs i v = (if i < length xs then Some (xs[i := v]) else None)"

definition vget2 :: "'a list list \<Rightarrow> nat \<Rightarrow> nat \<Rightarrow> 'a option" where
  "vget2 xss i j = do { row \<leftarrow> vget xss i; vget row j }"

definition vput2 :: "'a list list \<Rightarrow> nat \<Rightarrow> nat \<Rightarrow> 'a \<Rightarrow> 'a list list option" where
  "vput2 xss i j v = do { row \<leftarrow> vget xss i; row' \<leftarrow> vput row j v; vput xss i row' }"

text \<open>\<^verbatim>\<open>v[i] += a\<close> on a vector of doubles: one read and one write of the same slot.\<close>

definition vadd :: "real list \<Rightarrow> nat \<Rightarrow> real \<Rightarrow> real list option" where
  "vadd xs i a = do { v \<leftarrow> vget xs i; vput xs i (v + a) }"

text \<open>
  A counted \<^verbatim>\<open>for\<close> loop: the body is run on each counter value of the list in turn and
  the loop stops at the first access out of range.
\<close>

fun for_loop :: "nat list \<Rightarrow> (nat \<Rightarrow> 's \<Rightarrow> 's option) \<Rightarrow> 's \<Rightarrow> 's option" where
  "for_loop [] body s = Some s"
| "for_loop (i # is) body s = (case body i s of None \<Rightarrow> None | Some s' \<Rightarrow> for_loop is body s')"

subsection \<open>Matrices of the linear-algebra library\<close>

text \<open>
  \<^verbatim>\<open>Matrix2D\<close> and \<^verbatim>\<open>Matrix1D\<close> belong to a library outside this file. A matrix is
  modelled by its two dimensions and its element function; \<^verbatim>\<open>M(i,j) = k\<close> updates one
  element. The source only touches elements inside the dimensions it has allocated, and it
  writes every element before reading it, so the initial content of a new matrix (zero
  here) does not enter any statement.
\<close>

record Matrix2D =
  mdimy :: nat
  mdimx :: nat
  mel :: "nat \<Rightarrow> nat \<Rightarrow> real"

type_synonym Matrix1D = "nat \<Rightarrow> real"

definition Matrix2D_new :: "nat \<Rightarrow> nat \<Rightarrow> Matrix2D" where
  "Matrix2D_new ny nx = \<lparr>mdimy = ny, mdimx = nx, mel = (\<lambda>i j. 0)\<rparr>"

definition mset2 :: "Matrix2D \<Rightarrow> nat \<Rightarrow> nat \<Rightarrow> real \<Rightarrow> Matrix2D" where
  "mset2 M i j k = M\<lparr>mel := (mel M)(i := (mel M i)(j := k))\<rparr>"

subsection \<open>The object state\<close>

record 'img GpMotionFit =
  expKer :: bool
  pc :: nat
  fc :: nat
  threads :: int
  sig_vel_px :: real
  sig_div_px :: real
  sig_acc_px :: real
  correlation :: "'img list list"
  positions :: "d2Vector list"
  perFrameOffsets :: "d2Vector list"
  dc :: nat
  basis :: "nat \<Rightarrow> nat \<Rightarrow> real"
  eigenVals :: "real list"

text \<open>
  The length a parameter vector is expected to have: \<^verbatim>\<open>2*pc + 2*dc*(fc-1)\<close>. With at least
  one frame this is the same number in \<^typ>\<open>nat\<close> as in the source's \<^verbatim>\<open>int\<close>.
\<close>

definition param_count :: "'img GpMotionFit \<Rightarrow> nat" where
  "param_count g = 2 * pc g + 2 * dc g * (fc g - 1)"

text \<open>
  The immutable state is well formed when the correlation images form a grid of
  \<^verbatim>\<open>pc\<close> rows of \<^verbatim>\<open>fc\<close> images, there is one offset per frame and one eigenvalue per
  retained mode.
\<close>

definition well_formed :: "'img GpMotionFit \<Rightarrow> bool" where
  "well_formed g \<longleftrightarrow>
     length (correlation g) = pc g \<and>
     list_all (\<lambda>row. length row = fc g) (correlation g) \<and>
     length (perFrameOffsets g) = fc g \<and>
     length (eigenVals g) = dc g"

subsection \<open>Constructor: covariance kernel and basis (lines 7-65)\<close>

text \<open>Lines 26-38: the covariance matrix of the particle positions.\<close>

definition kernel_value :: "bool \<Rightarrow> real \<Rightarrow> real \<Rightarrow> real \<Rightarrow> real" where
  "kernel_value ek sv2 sd2 dd = sv2 * (if ek then exp (- sqrt (dd / sd2)) else exp (- 0.5 * dd / sd2))"

definition covariance :: "bool \<Rightarrow> real \<Rightarrow> real \<Rightarrow> d2Vector list \<Rightarrow> nat \<Rightarrow> Matrix2D option" where
  "covariance ek sig_vel sig_div ps n =
     (let sv2 = sig_vel * sig_vel; sd2 = sig_div * sig_div in
      for_loop [0..<n] (\<lambda>i A.
        for_loop [i..<n] (\<lambda>j A. do {
          a \<leftarrow> vget ps i;
          b \<leftarrow> vget ps j;
          let dd = norm2 (vminus a b);
          let k = kernel_value ek sv2 sd2 dd;
          Some (mset2 (mset2 A i j k) j i k)
        }) A) (Matrix2D_new n n))"

text \<open>Lines 47-57: the basis, column \<open>d\<close> scaled by the root of the \<open>d\<close>-th singular value.\<close>

definition make_basis :: "Matrix1D \<Rightarrow> Matrix2D \<Rightarrow> nat \<Rightarrow> nat \<Rightarrow> Matrix2D" where
  "make_basis S Vt n m =
     fold (\<lambda>d B. let l = sqrt (S d) in fold (\<lambda>p B. mset2 B p d (l * mel Vt p d)) [0..<n] B)
       [0..<m] (Matrix2D_new n m)"

text \<open>Lines 59-64: the retained eigenvalues.\<close>

definition make_eigenVals :: "Matrix1D \<Rightarrow> nat \<Rightarrow> real list option" where
  "make_eigenVals S m = for_loop [0..<m] (\<lambda>d ev. vput ev d (S d)) (replicate m 0)"

text \<open>
  The constructor. \<^verbatim>\<open>SvdHelper::decompose\<close> is outside this file and is a parameter: it
  maps the matrix \<open>A\<close> to \<open>(U, S, Vt)\<close>. \<^verbatim>\<open>maxDims\<close> is taken as a natural number.
\<close>

definition GpMotionFit_new ::
  "(Matrix2D \<Rightarrow> Matrix2D \<times> Matrix1D \<times> Matrix2D) \<Rightarrow> 'img list list \<Rightarrow> real \<Rightarrow> real \<Rightarrow> real \<Rightarrow>
   nat \<Rightarrow> d2Vector list \<Rightarrow> d2Vector list \<Rightarrow> int \<Rightarrow> bool \<Rightarrow> 'img GpMotionFit option" where
  "GpMotionFit_new decompose corr sig_vel sig_div sig_acc maxDims ps offs thr ek = do {
     row0 \<leftarrow> vget corr 0;
     let n = length corr;
     A \<leftarrow> covariance ek sig_vel sig_div ps n;
     let (U, S, Vt) = decompose A;
     let m = (if maxDims > n then n else maxDims);
     let B = make_basis S Vt n m;
     ev \<leftarrow> make_eigenVals S m;
     Some \<lparr>expKer = ek, pc = n, fc = length row0, threads = thr,
           sig_vel_px = sig_vel, sig_div_px = sig_div, sig_acc_px = sig_acc,
           correlation = corr, positions = ps, perFrameOffsets = offs,
           dc = m, basis = mel B, eigenVals = ev\<rparr>
   }"

subsection \<open>paramsToPos (lines 198-227)\<close>

text \<open>Lines 212-221: the velocity of particle \<open>p\<close> vget frame transition \<open>fr\<close>.\<close>

definition velocity :: "'img GpMotionFit \<Rightarrow> real list \<Rightarrow> nat \<Rightarrow> nat \<Rightarrow> d2Vector option" where
  "velocity g x p fr =
     for_loop [0..<dc g] (\<lambda>d vel. do {
       cx \<leftarrow> vget x (2 * (pc g + dc g * fr + d));
       cy \<leftarrow> vget x (2 * (pc g + dc g * fr + d) + 1);
       Some (fst vel + cx * basis g p d, snd vel + cy * basis g p d)
     }) (0, 0)"

text \<open>Lines 206-225: the frames of one particle; the state is \<open>(pp, pos)\<close>.\<close>

definition track :: "'img GpMotionFit \<Rightarrow> real list \<Rightarrow> nat \<Rightarrow>
    d2Vector \<times> d2Vector list list \<Rightarrow> (d2Vector \<times> d2Vector list list) option" where
  "track g x p =
     for_loop [0..<fc g] (\<lambda>fr (pp, pos). do {
       pos' \<leftarrow> vput2 pos p fr pp;
       if fr < fc g - 1 then do {
         vel \<leftarrow> velocity g x p fr;
         Some (vplus pp vel, pos')
       } else Some (pp, pos')
     })"

definition paramsToPos ::
  "'img GpMotionFit \<Rightarrow> real list \<Rightarrow> d2Vector list list \<Rightarrow> d2Vector list list option" where
  "paramsToPos g x pos =
     for_loop [0..<pc g] (\<lambda>p pos. do {
       x0 \<leftarrow> vget x (2 * p);
       x1 \<leftarrow> vget x (2 * p + 1);
       (pp, pos') \<leftarrow> track g x p ((x0, x1), pos);
       Some pos'
     }) pos"

text \<open>The grid \<^verbatim>\<open>pos(pc, std::vector<d2Vector>(fc))\<close> that \<^verbatim>\<open>f\<close> and \<^verbatim>\<open>grad\<close> allocate.\<close>

definition new_grid :: "'img GpMotionFit \<Rightarrow> d2Vector list list" where
  "new_grid g = replicate (pc g) (replicate (fc g) (0, 0))"

subsection \<open>posToParams (lines 229-255)\<close>

text \<open>Lines 242-250: the projection of the velocities vget transition \<open>fr\<close> onto mode \<open>d\<close>.\<close>

definition project :: "'img GpMotionFit \<Rightarrow> d2Vector list list \<Rightarrow> nat \<Rightarrow> nat \<Rightarrow> d2Vector option" where
  "project g pos fr d =
     for_loop [0..<pc g] (\<lambda>p c. do {
       a \<leftarrow> vget2 pos p (fr + 1);
       b \<leftarrow> vget2 pos p fr;
       let v = vminus a b;
       Some (fst c + fst v * basis g p d, snd c + snd v * basis g p d)
     }) (0, 0)"

definition posToParams ::
  "'img GpMotionFit \<Rightarrow> d2Vector list list \<Rightarrow> real list \<Rightarrow> real list option" where
  "posToParams g pos x = do {
     x \<leftarrow> for_loop [0..<pc g] (\<lambda>p x. do {
       q \<leftarrow> vget2 pos p 0;
       x \<leftarrow> vput x (2 * p) (fst q);
       vput x (2 * p + 1) (snd q)
     }) x;
     for_loop [0..<fc g - 1] (\<lambda>fr x.
       for_loop [0..<dc g] (\<lambda>d x. do {
         c \<leftarrow> project g pos fr d;
         ev \<leftarrow> vget (eigenVals g) d;
         x \<leftarrow> vput x (2 * (pc g + dc g * fr + d)) (fst c / ev);
         vput x (2 * (pc g + dc g * fr + d) + 1) (snd c / ev)
       }) x) x
   }"

subsection \<open>The energy f (lines 67-117)\<close>

text \<open>
  The interpolation routines \<^verbatim>\<open>Interpolation::cubicXY\<close> and
  \<^verbatim>\<open>Interpolation::cubicXYgrad\<close> are outside this file and are parameters, called with
  the arguments \<^verbatim>\<open>(image, x, y, 0, 0, true)\<close> as in the source.
\<close>

type_synonym 'img interp = "'img \<Rightarrow> real \<Rightarrow> real \<Rightarrow> int \<Rightarrow> int \<Rightarrow> bool \<Rightarrow> real"
type_synonym 'img interp_grad = "'img \<Rightarrow> real \<Rightarrow> real \<Rightarrow> int \<Rightarrow> int \<Rightarrow> bool \<Rightarrow> d2Vector"

text \<open>
  Lines 74-88. The particle loop is an OpenMP parallel loop whose only shared update is
  the atomic \<^verbatim>\<open>e_tot += e\<close>; over the reals the order of these additions does not
  matter, and the loop is modelled in particle order.
\<close>

definition f_particle ::
  "'img interp \<Rightarrow> 'img GpMotionFit \<Rightarrow> d2Vector list list \<Rightarrow> nat \<Rightarrow> real option" where
  "f_particle cubicXY g pos p =
     for_loop [0..<fc g] (\<lambda>fr e. do {
       img \<leftarrow> vget2 (correlation g) p fr;
       q \<leftarrow> vget2 pos p fr;
       off \<leftarrow> vget (perFrameOffsets g) fr;
       Some (e - cubicXY img (fst q + fst off) (snd q + snd off) 0 0 True)
     }) 0"

definition f_correlation ::
  "'img interp \<Rightarrow> 'img GpMotionFit \<Rightarrow> d2Vector list list \<Rightarrow> real \<Rightarrow> real option" where
  "f_correlation cubicXY g pos =
     for_loop [0..<pc g] (\<lambda>p e_tot. do {
       e \<leftarrow> f_particle cubicXY g pos p;
       Some (e_tot + e)
     })"

text \<open>Lines 90-97.\<close>

definition f_regulariser :: "'img GpMotionFit \<Rightarrow> real list \<Rightarrow> real \<Rightarrow> real option" where
  "f_regulariser g x =
     for_loop [0..<fc g - 1] (\<lambda>fr e_tot.
       for_loop [0..<dc g] (\<lambda>d e_tot. do {
         cx \<leftarrow> vget x (2 * (pc g + dc g * fr + d));
         cy \<leftarrow> vget x (2 * (pc g + dc g * fr + d) + 1);
         Some (e_tot + (cx * cx + cy * cy))
       }) e_tot)"

text \<open>Lines 101-113.\<close>

definition f_acceleration :: "'img GpMotionFit \<Rightarrow> real list \<Rightarrow> real \<Rightarrow> real option" where
  "f_acceleration g x =
     for_loop [0..<fc g - 2] (\<lambda>fr e_tot.
       for_loop [0..<dc g] (\<lambda>d e_tot. do {
         cx0 \<leftarrow> vget x (2 * (pc g + dc g * fr + d));
         cy0 \<leftarrow> vget x (2 * (pc g + dc g * fr + d) + 1);
         cx1 \<leftarrow> vget x (2 * (pc g + dc g * (fr + 1) + d));
         cy1 \<leftarrow> vget x (2 * (pc g + dc g * (fr + 1) + d) + 1);
         let dcx = cx1 - cx0;
         let dcy = cy1 - cy0;
         ev \<leftarrow> vget (eigenVals g) d;
         Some (e_tot + ev * (dcx * dcx + dcy * dcy) / (sig_acc_px g * sig_acc_px g))
       }) e_tot)"

definition f :: "'img interp \<Rightarrow> 'img GpMotionFit \<Rightarrow> real list \<Rightarrow> real option" where
  "f cubicXY g x = do {
     pos \<leftarrow> paramsToPos g x (new_grid g);
     e_tot \<leftarrow> f_correlation cubicXY g pos 0;
     e_tot \<leftarrow> f_regulariser g x e_tot;
     e_tot \<leftarrow> (if sig_acc_px g > 0 then f_acceleration g x e_tot else Some e_tot);
     Some e_tot
   }"

subsection \<open>The gradient grad (lines 119-196)\<close>

text \<open>Lines 125-137: the correlation gradient of every particle in every frame.\<close>

definition grad_ccg ::
  "'img interp_grad \<Rightarrow> 'img GpMotionFit \<Rightarrow> d2Vector list list \<Rightarrow> d2Vector list list option" where
  "grad_ccg cubicXYgrad g pos =
     for_loop [0..<pc g] (\<lambda>p ccg_pf.
       for_loop [0..<fc g] (\<lambda>fr ccg_pf. do {
         img \<leftarrow> vget2 (correlation g) p fr;
         q \<leftarrow> vget2 pos p fr;
         off \<leftarrow> vget (perFrameOffsets g) fr;
         vput2 ccg_pf p fr (cubicXYgrad img (fst q + fst off) (snd q + snd off) 0 0 True)
       }) ccg_pf) (new_grid g)"

text \<open>Lines 139-142.\<close>

definition grad_zero :: "real list \<Rightarrow> real list option" where
  "grad_zero gradDest = for_loop [0..<length gradDest] (\<lambda>i gd. vput gd i 0) gradDest"

text \<open>Lines 144-149.\<close>

definition grad_start ::
  "'img GpMotionFit \<Rightarrow> d2Vector list list \<Rightarrow> real list \<Rightarrow> real list option" where
  "grad_start g ccg_pf =
     for_loop [0..<pc g] (\<lambda>p gd.
       for_loop [0..<fc g] (\<lambda>fr gd. do {
         c \<leftarrow> vget2 ccg_pf p fr;
         gd \<leftarrow> vadd gd (2 * p) (fst c);
         vadd gd (2 * p + 1) (snd c)
       }) gd)"

text \<open>
  Lines 151-164. The frame loop runs from \<^verbatim>\<open>fc-2\<close> down to \<^verbatim>\<open>0\<close>; its state is the
  running sum \<open>gs\<close> together with the gradient vector.
\<close>

definition grad_coefficients ::
  "'img GpMotionFit \<Rightarrow> d2Vector list list \<Rightarrow> real list \<Rightarrow> real list option" where
  "grad_coefficients g ccg_pf =
     for_loop [0..<dc g] (\<lambda>d gd.
       for_loop [0..<pc g] (\<lambda>p gd. do {
         (gs, gd) \<leftarrow> for_loop (rev [0..<fc g - 1]) (\<lambda>fr (gs, gd). do {
           c \<leftarrow> vget2 ccg_pf p fr;
           let gs = (fst gs + basis g p d * fst c, snd gs + basis g p d * snd c);
           gd \<leftarrow> vadd gd (2 * (pc g + dc g * fr + d)) (- fst gs);
           gd \<leftarrow> vadd gd (2 * (pc g + dc g * fr + d) + 1) (- snd gs);
           Some (gs, gd)
         }) ((0, 0), gd);
         Some gd
       }) gd)"

text \<open>
  Lines 166-171. The inner counter runs up to \<^verbatim>\<open>pc\<close>, as the source has it; the inner loop
  for one frame transition is named \<open>grad_regulariser_frame\<close>.
\<close>

definition grad_regulariser_frame ::
  "'img GpMotionFit \<Rightarrow> real list \<Rightarrow> nat \<Rightarrow> real list \<Rightarrow> real list option" where
  "grad_regulariser_frame g x fr =
     for_loop [0..<pc g] (\<lambda>d gd. do {
       a \<leftarrow> vget x (2 * (pc g + dc g * fr + d));
       gd \<leftarrow> vadd gd (2 * (pc g + dc g * fr + d)) (2 * a);
       b \<leftarrow> vget x (2 * (pc g + dc g * fr + d) + 1);
       vadd gd (2 * (pc g + dc g * fr + d) + 1) (2 * b)
     })"

definition grad_regulariser :: "'img GpMotionFit \<Rightarrow> real list \<Rightarrow> real list \<Rightarrow> real list option" where
  "grad_regulariser g x =
     for_loop [0..<fc g - 1] (\<lambda>fr gd. grad_regulariser_frame g x fr gd)"

text \<open>Lines 173-195.\<close>

definition grad_acceleration :: "'img GpMotionFit \<Rightarrow> real list \<Rightarrow> real list \<Rightarrow> real list option" where
  "grad_acceleration g x =
     (let sa2 = sig_acc_px g * sig_acc_px g in
      for_loop [0..<fc g - 2] (\<lambda>fr gd.
        for_loop [0..<dc g] (\<lambda>d gd. do {
          cx0 \<leftarrow> vget x (2 * (pc g + dc g * fr + d));
          cy0 \<leftarrow> vget x (2 * (pc g + dc g * fr + d) + 1);
          cx1 \<leftarrow> vget x (2 * (pc g + dc g * (fr + 1) + d));
          cy1 \<leftarrow> vget x (2 * (pc g + dc g * (fr + 1) + d) + 1);
          let dcx = cx1 - cx0;
          let dcy = cy1 - cy0;
          ev \<leftarrow> vget (eigenVals g) d;
          gd \<leftarrow> vadd gd (2 * (pc g + dc g * fr + d)) (- (2 * ev * dcx / sa2));
          gd \<leftarrow> vadd gd (2 * (pc g + dc g * fr + d) + 1) (- (2 * ev * dcy / sa2));
          gd \<leftarrow> vadd gd (2 * (pc g + dc g * (fr + 1) + d)) (2 * ev * dcx / sa2);
          vadd gd (2 * (pc g + dc g * (fr + 1) + d) + 1) (2 * ev * dcy / sa2)
        }) gd))"

definition grad ::
  "'img interp_grad \<Rightarrow> 'img GpMotionFit \<Rightarrow> real list \<Rightarrow> real list \<Rightarrow> real list option" where
  "grad cubicXYgrad g x gradDest = do {
     pos \<leftarrow> paramsToPos g x (new_grid g);
     ccg_pf \<leftarrow> grad_ccg cubicXYgrad g pos;
     gd \<leftarrow> grad_zero gradDest;
     gd \<leftarrow> grad_start g ccg_pf gd;
     gd \<leftarrow> grad_coefficients g ccg_pf gd;
     gd \<leftarrow> grad_regulariser g x gd;
     gd \<leftarrow> (if sig_acc_px g > 0 then grad_acceleration g x gd else Some gd);
     Some gd
   }"

subsection \<open>Notions used in the statements\<close>

text \<open>The value the constructor computes for the pair of particles \<open>a\<close> and \<open>b\<close>.\<close>

definition pair_value :: "bool \<Rightarrow> real \<Rightarrow> real \<Rightarrow> d2Vector list \<Rightarrow> nat \<Rightarrow> nat \<Rightarrow> real" where
  "pair_value ek sv sd ps a b = kernel_value ek (sv * sv) (sd * sd) (norm2 (vminus (ps ! a) (ps ! b)))"

text \<open>
  What the decomposition guarantees for an \<open>n\<close> by \<open>n\<close> symmetric positive semi-definite
  matrix \<open>A\<close>: non-negative singular values \<open>S\<close> and \<open>A = Vt * diag S * Vt\<^sup>T\<close>.
\<close>

definition decomposes :: "(Matrix2D \<Rightarrow> Matrix2D \<times> Matrix1D \<times> Matrix2D) \<Rightarrow> Matrix2D \<Rightarrow> nat \<Rightarrow> bool" where
  "decomposes decompose A n \<longleftrightarrow>
     (case decompose A of (U, S, Vt) \<Rightarrow>
        (\<forall>d<n. 0 \<le> S d) \<and>
        (\<forall>i<n. \<forall>j<n. mel A i j = (\<Sum>d<n. mel Vt i d * S d * mel Vt j d)))"

text \<open>The 2D coefficient of mode \<open>d\<close> at frame transition \<open>fr\<close>, stored at offset \<open>2*(pc + dc*fr + d)\<close>.\<close>

definition coefficient :: "'img GpMotionFit \<Rightarrow> real list \<Rightarrow> nat \<Rightarrow> nat \<Rightarrow> d2Vector" where
  "coefficient g x fr d = (x ! (2 * (pc g + dc g * fr + d)), x ! (2 * (pc g + dc g * fr + d) + 1))"

text \<open>The sum over the retained modes of coefficient times basis loading.\<close>

definition mode_sum :: "'img GpMotionFit \<Rightarrow> real list \<Rightarrow> nat \<Rightarrow> nat \<Rightarrow> d2Vector" where
  "mode_sum g x p fr =
     (\<Sum>d<dc g. fst (coefficient g x fr d) * basis g p d, \<Sum>d<dc g. snd (coefficient g x fr d) * basis g p d)"

text \<open>The trajectory: the two leading slots of the particle, then one velocity per transition.\<close>

primrec trajectory :: "'img GpMotionFit \<Rightarrow> real list \<Rightarrow> nat \<Rightarrow> nat \<Rightarrow> d2Vector" where
  "trajectory g x p 0 = (x ! (2 * p), x ! (2 * p + 1))"
| "trajectory g x p (Suc fr) = vplus (trajectory g x p fr) (mode_sum g x p fr)"

text \<open>The interpolated correlation of particle \<open>p\<close> in frame \<open>fr\<close> at its offset position.\<close>

definition sample :: "'img interp \<Rightarrow> 'img GpMotionFit \<Rightarrow> d2Vector list list \<Rightarrow> nat \<Rightarrow> nat \<Rightarrow> real" where
  "sample cubicXY g ps p fr =
     cubicXY (correlation g ! p ! fr)
       (fst (ps ! p ! fr) + fst (perFrameOffsets g ! fr))
       (snd (ps ! p ! fr) + snd (perFrameOffsets g ! fr)) 0 0 True"

text \<open>A grid of \<open>pc\<close> rows of \<open>fc\<close> entries.\<close>

definition grid_shape :: "'img GpMotionFit \<Rightarrow> 'a list list \<Rightarrow> bool" where
  "grid_shape g ps \<longleftrightarrow> length ps = pc g \<and> (\<forall>p<pc g. length (ps ! p) = fc g)"

text \<open>A vector that has the length of \<open>x\<close> and the entries of \<open>x\<close> below index \<open>k\<close>.\<close>

definition agrees_upto :: "real list \<Rightarrow> nat \<Rightarrow> real list \<Rightarrow> bool" where
  "agrees_upto x k s \<longleftrightarrow> length s = length x \<and> (\<forall>i<k. s ! i = x ! i)"

text \<open>
  The state of the frame loop of \<open>paramsToPos\<close> after \<open>n\<close> frames of particle \<open>p\<close>, started on
  the grid \<open>pos\<close>: the running position and the part of the row written so far.
\<close>

definition track_inv ::
  "'img GpMotionFit \<Rightarrow> real list \<Rightarrow> nat \<Rightarrow> d2Vector list list \<Rightarrow> nat \<Rightarrow>
   d2Vector \<times> d2Vector list list \<Rightarrow> bool" where
  "track_inv g x p pos n t \<longleftrightarrow>
     (case t of (pp, ps) \<Rightarrow>
        pp = trajectory g x p (min n (fc g - 1)) \<and> length ps = length pos \<and>
        (\<forall>a<length pos. length (ps ! a) = length (pos ! a) \<and>
           (\<forall>fr<length (pos ! a). ps ! a ! fr = (if a = p \<and> fr < n then trajectory g x p fr else pos ! a ! fr))))"

text \<open>The grid after the first \<open>n\<close> particles of \<open>paramsToPos\<close>, started on the grid \<open>pos\<close>.\<close>

definition grid_inv ::
  "'img GpMotionFit \<Rightarrow> real list \<Rightarrow> d2Vector list list \<Rightarrow> nat \<Rightarrow> d2Vector list list \<Rightarrow> bool" where
  "grid_inv g x pos n ps \<longleftrightarrow>
     length ps = length pos \<and>
     (\<forall>a<length pos. length (ps ! a) = length (pos ! a) \<and>
        (\<forall>fr<length (pos ! a). ps ! a ! fr = (if a < n \<and> fr < fc g then trajectory g x a fr else pos ! a ! fr)))"

subsection \<open>Concrete instances for evaluation\<close>

text \<open>
  One particle, three frames, one retained mode; the images are left abstract and the
  interpolation is a linear ramp with its constant gradient.
\<close>

definition fit1 :: "unit GpMotionFit" where
  "fit1 = \<lparr>expKer = False, pc = 1, fc = 3, threads = 1,
           sig_vel_px = 1, sig_div_px = 1, sig_acc_px = 1,
           correlation = [[(), (), ()]], positions = [(0, 0)],
           perFrameOffsets = [(0, 0), (0, 0), (0, 0)],
           dc = 1, basis = (\<lambda>p d. 2), eigenVals = [4]\<rparr>"

definition ramp :: "unit interp" where
  "ramp img u v z n w = u + 2 * v"

definition ramp_grad :: "unit interp_grad" where
  "ramp_grad img u v z n w = (1, 2)"

text \<open>
  Two particles, three frames and a single retained mode, as the constructor produces for
  \<^verbatim>\<open>maxDims = 1\<close>: here \<open>dc < pc\<close>.
\<close>

definition fit2 :: "unit GpMotionFit" where
  "fit2 = \<lparr>expKer = False, pc = 2, fc = 3, threads = 1,
           sig_vel_px = 1, sig_div_px = 1, sig_acc_px = 0,
           correlation = [[(), (), ()], [(), (), ()]], positions = [(0, 0), (0, 0)],
           perFrameOffsets = [(0, 0), (0, 0), (0, 0)],
           dc = 1, basis = (\<lambda>p d. 1), eigenVals = [2]\<rparr>"

text \<open>
  Images that are planes: an image is given by its slope \<open>(a, b)\<close>, its interpolated value at
  \<open>(u, v)\<close> is \<open>a * u + b * v\<close>, and its gradient there is \<open>(a, b)\<close>.
\<close>

definition plane :: "d2Vector interp" where
  "plane img u v z n w = fst img * u + snd img * v"

definition plane_grad :: "d2Vector interp_grad" where
  "plane_grad img u v z n w = img"

text \<open>
  One particle, two frames, one mode (\<open>dc = pc\<close>); the image of frame 0 rises along the first
  axis and the image of frame 1 is flat.
\<close>

definition fit3 :: "d2Vector GpMotionFit" where
  "fit3 = \<lparr>expKer = False, pc = 1, fc = 2, threads = 1,
           sig_vel_px = 1, sig_div_px = 1, sig_acc_px = 0,
           correlation = [[(1, 0), (0, 0)]], positions = [(0, 0)],
           perFrameOffsets = [(0, 0), (0, 0)],
           dc = 1, basis = (\<lambda>p d. 1), eigenVals = [1]\<rparr>"

section \<open>Verification\<close>

subsection \<open>Loops and element access\<close>

lemma for_loop_append:
  "for_loop (xs @ ys) body s = (case for_loop xs body s of None \<Rightarrow> None | Some t \<Rightarrow> for_loop ys body t)"
  by (induction xs arbitrary: s) (auto split: option.splits)

lemma for_loop_invariant:
  assumes init: "I a s" and le: "a \<le> n"
    and step: "\<And>i t. a \<le> i \<Longrightarrow> i < n \<Longrightarrow> I i t \<Longrightarrow> \<exists>t'. body i t = Some t' \<and> I (Suc i) t'"
  shows "\<exists>t. for_loop [a..<n] body s = Some t \<and> I n t"
  using le step
proof (induction n rule: dec_induct)
  case base
  then show ?case using init by simp
next
  case (step n)
  have "\<exists>t. for_loop [a..<n] body s = Some t \<and> I n t"
    by (rule step.IH) (use step.prems step.hyps in auto)
  then obtain t where t: "for_loop [a..<n] body s = Some t" "I n t" by blast
  obtain t' where t': "body n t = Some t'" "I (Suc n) t'"
    using step.prems[of n t] step.hyps t by auto
  show ?case
    using step.hyps t t' by (simp add: for_loop_append)
qed

lemma for_loop_sum:
  fixes h :: "nat \<Rightarrow> real"
  assumes "\<And>i e. i < n \<Longrightarrow> body i e = Some (e + h i)"
  shows "for_loop [0..<n] body e0 = Some (e0 + (\<Sum>i<n. h i))"
proof -
  have "\<exists>t. for_loop [0..<n] body e0 = Some t \<and> t = e0 + (\<Sum>i<n. h i)"
    by (rule for_loop_invariant[where I = "\<lambda>k t. t = e0 + (\<Sum>i<k. h i)"]) (simp_all add: assms)
  then show ?thesis by simp
qed

lemma for_loop_preserves:
  assumes "I s"
    and "\<And>i t. i \<in> set js \<Longrightarrow> I t \<Longrightarrow> \<exists>t'. body i t = Some t' \<and> I t'"
  shows "\<exists>t. for_loop js body s = Some t \<and> I t"
  using assms
proof (induction js arbitrary: s)
  case Nil
  then show ?case by simp
next
  case (Cons j js)
  obtain t where t: "body j s = Some t" "I t"
    using Cons.prems(1) Cons.prems(2)[of j s] by auto
  have "\<exists>u. for_loop js body t = Some u \<and> I u"
    by (rule Cons.IH[OF t(2)]) (use Cons.prems(2) in auto)
  then show ?case using t(1) by simp
qed

lemma vget2_eq:
  "p < length ps \<Longrightarrow> fr < length (ps ! p) \<Longrightarrow> vget2 ps p fr = Some (ps ! p ! fr)"
  by (simp add: vget2_def vget_def)

lemma vput2_eq:
  "p < length ps \<Longrightarrow> fr < length (ps ! p) \<Longrightarrow> vput2 ps p fr v = Some (ps[p := (ps ! p)[fr := v]])"
  by (simp add: vput2_def vget_def vput_def)

lemma vadd_in_range:
  "i < length xs \<Longrightarrow> \<exists>ys. vadd xs i a = Some ys \<and> length ys = length xs"
  by (simp add: vadd_def vget_def vput_def)

lemma vadd_pair_in_range:
  assumes "i + 1 < n" and "length xs = n"
  shows "\<exists>ys. (do { t \<leftarrow> vadd xs i a; vadd t (i + 1) b }) = Some ys \<and> length ys = n"
  using assms by (simp add: vadd_def vget_def vput_def)

lemma mel_mset2: "mel (mset2 M i j k) a b = (if a = i \<and> b = j then k else mel M a b)"
  by (simp add: mset2_def)

lemma slot_less: "fr < n \<Longrightarrow> d < m \<Longrightarrow> m * fr + d < m * (n::nat)"
proof -
  assume a: "fr < n" "d < m"
  have "m * fr + d < m * Suc fr" using a by simp
  also have "\<dots> \<le> m * n" using a by (intro mult_le_mono2) simp
  finally show ?thesis .
qed

lemma coefficient_slot_in_range:
  assumes "length x = param_count g" and "fr < fc g - 1" and "d < dc g"
  shows "2 * (pc g + dc g * fr + d) + 1 < length x"
  using slot_less[OF assms(2,3)] assms(1) by (simp add: param_count_def)

lemma start_slot_in_range:
  assumes "length x = param_count g" and "p < pc g"
  shows "2 * p + 1 < length x"
  using assms by (simp add: param_count_def)

lemma slot_in_range:
  assumes "fr < fc g - 1" and "d < dc g"
  shows "2 * (pc g + dc g * fr + d) + 1 < param_count g"
  using slot_less[OF assms] by (simp add: param_count_def)

text \<open>The definitions unfolded to evaluate the loops on concrete vectors.\<close>

lemmas eval_defs = paramsToPos_def track_def velocity_def new_grid_def grad_ccg_def
  grad_start_def grad_coefficients_def grad_regulariser_def grad_regulariser_frame_def grad_acceleration_def
  vget_def vput_def vget2_def vput2_def vadd_def vplus_def upt_rec

subsection \<open>The constructor\<close>

lemma pair_value_sym: "pair_value ek sv sd ps a b = pair_value ek sv sd ps b a"
  by (simp add: pair_value_def norm2_def vminus_def algebra_simps power2_eq_square[symmetric] power2_commute)

lemma covariance_row:
  assumes n: "n \<le> length ps" and i: "i < n"
    and inv: "\<forall>a b. a < n \<and> b < n \<and> (a < i \<or> b < i) \<longrightarrow> mel A a b = pair_value ek sv sd ps a b"
  shows "\<exists>A'. for_loop [i..<n] (\<lambda>j A. do {
          a \<leftarrow> vget ps i;
          b \<leftarrow> vget ps j;
          let dd = norm2 (vminus a b);
          let k = kernel_value ek (sv * sv) (sd * sd) dd;
          Some (mset2 (mset2 A i j k) j i k)
        }) A = Some A' \<and> (\<forall>a b. a < n \<and> b < n \<and> (a < Suc i \<or> b < Suc i) \<longrightarrow> mel A' a b = pair_value ek sv sd ps a b)"
proof -
  let ?I = "\<lambda>j (A::Matrix2D). \<forall>a b. a < n \<and> b < n \<and> (a < i \<or> b < i \<or> (a = i \<and> b < j) \<or> (b = i \<and> a < j))
               \<longrightarrow> mel A a b = pair_value ek sv sd ps a b"
  have "\<exists>A'. for_loop [i..<n] (\<lambda>j A. do {
          a \<leftarrow> vget ps i;
          b \<leftarrow> vget ps j;
          let dd = norm2 (vminus a b);
          let k = kernel_value ek (sv * sv) (sd * sd) dd;
          Some (mset2 (mset2 A i j k) j i k)
        }) A = Some A' \<and> ?I n A'"
  proof (rule for_loop_invariant[where I = ?I])
    show "?I i A" using inv by auto
    show "i \<le> n" using i by simp
  next
    fix j t assume j: "i \<le> j" "j < n" and t: "?I j t"
    have "?I (Suc j) (mset2 (mset2 t i j (pair_value ek sv sd ps i j)) j i (pair_value ek sv sd ps i j))"
      using t j pair_value_sym[of ek sv sd ps i j] by (auto simp: mel_mset2 less_Suc_eq)
    then show "\<exists>t'. (do {
          a \<leftarrow> vget ps i;
          b \<leftarrow> vget ps j;
          let dd = norm2 (vminus a b);
          let k = kernel_value ek (sv * sv) (sd * sd) dd;
          Some (mset2 (mset2 t i j k) j i k)
        }) = Some t' \<and> ?I (Suc j) t'"
      using n i j by (simp add: vget_def pair_value_def Let_def)
  qed
  then show ?thesis by (auto simp: less_Suc_eq)
qed

lemma covariance_entries:
  assumes n: "n \<le> length ps"
  shows "\<exists>A. covariance ek sv sd ps n = Some A \<and> (\<forall>a b. a < n \<and> b < n \<longrightarrow> mel A a b = pair_value ek sv sd ps a b)"
proof -
  let ?I = "\<lambda>i (A::Matrix2D). \<forall>a b. a < n \<and> b < n \<and> (a < i \<or> b < i) \<longrightarrow> mel A a b = pair_value ek sv sd ps a b"
  have "\<exists>A. covariance ek sv sd ps n = Some A \<and> ?I n A"
    unfolding covariance_def Let_def
  proof (rule for_loop_invariant[where I = ?I])
    show "?I 0 (Matrix2D_new n n)" by simp
    show "0 \<le> n" by simp
  next
    fix i t assume "i < n" "?I i t"
    then show "\<exists>t'. for_loop [i..<n] (\<lambda>j A. do {
          a \<leftarrow> vget ps i;
          b \<leftarrow> vget ps j;
          Some (mset2 (mset2 A i j (kernel_value ek (sv * sv) (sd * sd) (norm2 (vminus a b)))) j i (kernel_value ek (sv * sv) (sd * sd) (norm2 (vminus a b))))
        }) t = Some t' \<and> ?I (Suc i) t'"
      using covariance_row[OF n, of i t ek sv sd] by (simp add: Let_def)
  qed
  then show ?thesis by auto
qed

lemma kernel_value_positive_scale:
  assumes "0 < sd"
  shows "kernel_value ek (sv * sv) (sd * sd) dd =
     (if ek then sv\<^sup>2 * exp (- sqrt dd / sd) else sv\<^sup>2 * exp (- 0.5 * dd / sd\<^sup>2))"
  using assms by (simp add: kernel_value_def power2_eq_square real_sqrt_divide)

text \<open>
  C9. For particles \<open>i\<close> and \<open>j\<close> with reference positions \<open>(xi, yi)\<close> and \<open>(xj, yj)\<close> the
  constructor's covariance matrix is symmetric, and with the squared Euclidean distance
  \<open>dd = (xi - xj)\<^sup>2 + (yi - yj)\<^sup>2\<close> its entry is \<open>sig_vel_px\<^sup>2 * exp (- sqrt dd / sig_div_px)\<close>
  for the exponential kernel and \<open>sig_vel_px\<^sup>2 * exp (- 0.5 * dd / sig_div_px\<^sup>2)\<close> for the
  Gaussian one. The scale \<open>sig_div_px\<close> is positive and there is a reference position for
  every particle.
\<close>

theorem covariance_kernel_entries:
  assumes "n \<le> length ps" and "0 < sd" and "i < n" and "j < n"
  shows "\<exists>A. covariance ek sv sd ps n = Some A \<and> mel A i j = mel A j i \<and>
           mel A i j =
             (if ek
              then sv\<^sup>2 * exp (- sqrt ((fst (ps ! i) - fst (ps ! j))\<^sup>2 + (snd (ps ! i) - snd (ps ! j))\<^sup>2) / sd)
              else sv\<^sup>2 * exp (- 0.5 * ((fst (ps ! i) - fst (ps ! j))\<^sup>2 + (snd (ps ! i) - snd (ps ! j))\<^sup>2) / sd\<^sup>2))"
proof -
  obtain A where A: "covariance ek sv sd ps n = Some A"
    and e: "\<forall>a b. a < n \<and> b < n \<longrightarrow> mel A a b = pair_value ek sv sd ps a b"
    using covariance_entries[OF assms(1)] by blast
  have dd: "norm2 (vminus (ps ! i) (ps ! j)) =
      (fst (ps ! i) - fst (ps ! j))\<^sup>2 + (snd (ps ! i) - snd (ps ! j))\<^sup>2"
    by (simp add: norm2_def vminus_def power2_eq_square)
  have "mel A i j = pair_value ek sv sd ps i j" "mel A j i = pair_value ek sv sd ps i j"
    using e assms(3,4) pair_value_sym[of ek sv sd ps i j] by auto
  then show ?thesis
    using A kernel_value_positive_scale[OF assms(2), of ek sv "norm2 (vminus (ps ! i) (ps ! j))"]
    unfolding dd pair_value_def by simp
qed

theorem covariance_kernel_entries_witness:
  "(2::nat) \<le> length [(1::real, 2::real), (4, 6)] \<and> (0::real) < 2 \<and> (0::nat) < 2 \<and> (1::nat) < 2 \<and>
   (\<exists>A. covariance True 3 2 [(1, 2), (4, 6)] 2 = Some A \<and> mel A 0 1 = mel A 1 0 \<and>
         mel A 0 1 = 9 * exp (- (5 / 2))) \<and>
   (\<exists>A. covariance False 3 2 [(1, 2), (4, 6)] 2 = Some A \<and> mel A 0 1 = mel A 1 0 \<and>
         mel A 0 1 = 9 * exp (- (25 / 8)))"
proof -
  have root: "sqrt 25 = (5::real)"
    by (rule real_sqrt_unique) simp_all
  have "\<exists>A. covariance True 3 2 [(1, 2), (4, 6)] 2 = Some A \<and> mel A 0 1 = mel A 1 0 \<and>
         mel A 0 1 = 9 * exp (- (5 / 2))"
    using covariance_kernel_entries[of 2 "[(1, 2), (4, 6)]" 2 0 1 True 3]
    by (simp add: root)
  moreover have "\<exists>A. covariance False 3 2 [(1, 2), (4, 6)] 2 = Some A \<and> mel A 0 1 = mel A 1 0 \<and>
         mel A 0 1 = 9 * exp (- (25 / 8))"
    using covariance_kernel_entries[of 2 "[(1, 2), (4, 6)]" 2 0 1 False 3]
    by simp
  ultimately show ?thesis by simp
qed

lemma basis_column:
  "mel (fold (\<lambda>p B. mset2 B p d (v p)) [0..<k] B) a b = (if b = d \<and> a < k then v a else mel B a b)"
  by (induction k) (auto simp: mel_mset2 less_Suc_eq)

lemma make_basis_entries:
  "mel (make_basis S Vt n m) p d = (if p < n \<and> d < m then sqrt (S d) * mel Vt p d else 0)"
proof -
  have "mel (fold (\<lambda>d B. let l = sqrt (S d) in fold (\<lambda>p B. mset2 B p d (l * mel Vt p d)) [0..<n] B)
       [0..<k] (Matrix2D_new n m)) p d = (if p < n \<and> d < k then sqrt (S d) * mel Vt p d else 0)" for k
    by (induction k) (auto simp: basis_column Let_def Matrix2D_new_def)
  then show ?thesis by (simp add: make_basis_def)
qed

lemma basis_product:
  assumes new: "GpMotionFit_new decompose corr sv sd sa maxDims ps offs thr ek = Some g"
    and A: "covariance ek sv sd ps (length corr) = Some A"
    and dec: "decompose A = (U, S, Vt)"
    and usv: "\<forall>i<length corr. \<forall>j<length corr.
                mel A i j = (\<Sum>d<length corr. mel Vt i d * S d * mel Vt j d)"
    and nonneg: "\<forall>d<length corr. 0 \<le> S d"
    and full: "dc g = pc g"
  shows "\<forall>i<pc g. \<forall>j<pc g. (\<Sum>d<dc g. basis g i d * basis g j d) = mel A i j"
proof (intro allI impI)
  fix i j assume i: "i < pc g" and j: "j < pc g"
  have pc: "pc g = length corr"
    and dc_eq: "dc g = (if maxDims > length corr then length corr else maxDims)"
    and basis_eq: "basis g = mel (make_basis S Vt (length corr) (dc g))"
    using new A dec by (auto simp: GpMotionFit_new_def Let_def split: Option.bind_splits)
  have dcg: "dc g = length corr" using full pc by simp
  have b: "basis g p d = mel (make_basis S Vt (length corr) (length corr)) p d" for p d
    using basis_eq dcg by simp
  have "(\<Sum>d<dc g. basis g i d * basis g j d)
      = (\<Sum>d<length corr. (sqrt (S d) * mel Vt i d) * (sqrt (S d) * mel Vt j d))"
    using i j pc dcg by (simp add: b make_basis_entries)
  also have "\<dots> = (\<Sum>d<length corr. mel Vt i d * S d * mel Vt j d)"
  proof (rule sum.cong)
    fix d assume "d \<in> {..<length corr}"
    then have "sqrt (S d) * sqrt (S d) = S d" using nonneg by simp
    then show "(sqrt (S d) * mel Vt i d) * (sqrt (S d) * mel Vt j d) = mel Vt i d * S d * mel Vt j d"
      by (metis mult.assoc mult.commute)
  qed simp
  also have "\<dots> = mel A i j" using usv i j pc by simp
  finally show "(\<Sum>d<dc g. basis g i d * basis g j d) = mel A i j" .
qed

lemma make_eigenVals_eq: "make_eigenVals S m = Some (map S [0..<m])"
proof -
  let ?I = "\<lambda>n (ev::real list). length ev = m \<and> (\<forall>d<n. ev ! d = S d)"
  have "\<exists>ev. make_eigenVals S m = Some ev \<and> ?I m ev"
    unfolding make_eigenVals_def
    by (rule for_loop_invariant[where I = ?I])
      (auto simp: vput_def nth_list_update less_Suc_eq)
  then obtain ev where ev: "make_eigenVals S m = Some ev" "length ev = m" "\<forall>d<m. ev ! d = S d"
    by blast
  have "ev = map S [0..<m]"
    using ev(2,3) by (intro nth_equalityI) auto
  then show ?thesis using ev(1) by simp
qed

text \<open>
  C8. Without truncation (\<open>maxDims \<ge> pc\<close>, so \<open>dc = pc\<close>) the constructor succeeds and the
  basis satisfies \<open>basis * basis\<^sup>T = A\<close> for either kernel, given that the decomposition of the
  covariance matrix \<open>A\<close> returns non-negative singular values \<open>S\<close> and vectors \<open>Vt\<close> with
  \<open>A = Vt * diag S * Vt\<^sup>T\<close>.
\<close>

theorem basis_reconstructs_covariance:
  assumes nonempty: "corr \<noteq> []" and ps: "length corr \<le> length ps"
    and full: "length corr \<le> maxDims"
    and dec: "\<forall>A. covariance ek sv sd ps (length corr) = Some A \<longrightarrow> decomposes decompose A (length corr)"
  shows "\<exists>g A. GpMotionFit_new decompose corr sv sd sa maxDims ps offs thr ek = Some g \<and>
           covariance ek sv sd ps (length corr) = Some A \<and>
           pc g = length corr \<and> dc g = pc g \<and>
           (\<forall>i<pc g. \<forall>j<pc g. (\<Sum>d<dc g. basis g i d * basis g j d) = mel A i j)"
proof -
  obtain A where A: "covariance ek sv sd ps (length corr) = Some A"
    using covariance_entries[OF ps] by blast
  obtain U S Vt where usv: "decompose A = (U, S, Vt)" by (cases "decompose A") auto
  have g1: "\<forall>d<length corr. 0 \<le> S d"
    and g2: "\<forall>i<length corr. \<forall>j<length corr. mel A i j = (\<Sum>d<length corr. mel Vt i d * S d * mel Vt j d)"
    using dec A usv by (auto simp: decomposes_def)
  have "\<exists>g. GpMotionFit_new decompose corr sv sd sa maxDims ps offs thr ek = Some g"
    using nonempty A usv by (simp add: GpMotionFit_new_def vget_def make_eigenVals_eq Let_def)
  then obtain g where new: "GpMotionFit_new decompose corr sv sd sa maxDims ps offs thr ek = Some g"
    by blast
  have shape: "pc g = length corr" "dc g = pc g"
    using new A usv full by (auto simp: GpMotionFit_new_def Let_def split: Option.bind_splits)
  have "\<forall>i<pc g. \<forall>j<pc g. (\<Sum>d<dc g. basis g i d * basis g j d) = mel A i j"
    by (rule basis_product[OF new A usv g2 g1 shape(2)])
  then show ?thesis using new A shape by blast
qed

theorem basis_reconstructs_covariance_witness:
  "\<exists>g A. GpMotionFit_new
            (\<lambda>A. (A, (\<lambda>d. if d = 0 then 2 else 0),
               \<lparr>mdimy = 2, mdimx = 2, mel = (\<lambda>i j. if i = 1 \<and> j = 1 then - (1 / sqrt 2) else 1 / sqrt 2)\<rparr>))
            [[()], [()]] 1 1 0 2 [(0, 0), (0, 0)] [(0, 0)] 1 False = Some g \<and>
         covariance False 1 1 [(0, 0), (0, 0)] 2 = Some A \<and>
         dc g = pc g \<and> pc g = 2 \<and>
         (\<Sum>d<dc g. basis g 0 d * basis g 1 d) = mel A 0 1 \<and> mel A 0 1 = 1"
proof -
  let ?S = "\<lambda>d::nat. if d = 0 then 2 else (0::real)"
  let ?Vt = "\<lparr>mdimy = 2, mdimx = 2, mel = (\<lambda>i j. if i = 1 \<and> j = 1 then - (1 / sqrt 2) else 1 / sqrt 2)\<rparr>"
  let ?dec = "\<lambda>A::Matrix2D. (A, ?S, ?Vt)"
  let ?A = "\<lparr>mdimy = 2, mdimx = 2, mel = (\<lambda>i j. if i < 2 \<and> j < 2 then 1 else 0)\<rparr>"
  have A2: "covariance False 1 1 [(0, 0), (0, 0)] 2 = Some ?A"
    by (simp add: upt_rec covariance_def kernel_value_def norm2_def vminus_def vget_def mset2_def
        Matrix2D_new_def fun_eq_iff)
  have l: "length [[()], [()]] = 2" by simp
  have dec: "\<forall>A. covariance False 1 1 [(0, 0), (0, 0)] (length [[()], [()]]) = Some A \<longrightarrow>
      decomposes ?dec A (length [[()], [()]])"
    unfolding l using A2 by (simp add: decomposes_def lessThan_Suc eval_nat_numeral)
  obtain g A where new: "GpMotionFit_new ?dec [[()], [()]] 1 1 0 2 [(0, 0), (0, 0)] [(0, 0)] 1 False = Some g"
    and A: "covariance False 1 1 [(0, 0), (0, 0)] (length [[()], [()]]) = Some A"
    and shape: "pc g = length [[()], [()]]" "dc g = pc g"
    and prod: "\<forall>i<pc g. \<forall>j<pc g. (\<Sum>d<dc g. basis g i d * basis g j d) = mel A i j"
    using basis_reconstructs_covariance[of "[[()], [()]]" "[(0, 0), (0, 0)]" 2 False 1 1 ?dec 0 "[(0, 0)]" 1, OF _ _ _ dec]
    by auto
  have AA: "A = ?A" using A A2 unfolding l by simp
  have "(\<Sum>d<dc g. basis g 0 d * basis g 1 d) = mel A 0 1"
    using prod shape by simp
  then show ?thesis
    by (intro exI[of _ g] exI[of _ ?A]) (use new A2 shape AA in simp)
qed

subsection \<open>Expanding parameters into positions\<close>

lemma velocity_eq:
  assumes len: "length x = param_count g" and fr: "fr < fc g - 1"
  shows "velocity g x p fr = Some (mode_sum g x p fr)"
proof -
  let ?I = "\<lambda>n (vel::d2Vector). vel = (\<Sum>d<n. fst (coefficient g x fr d) * basis g p d,
                                 \<Sum>d<n. snd (coefficient g x fr d) * basis g p d)"
  have "\<exists>t. velocity g x p fr = Some t \<and> ?I (dc g) t"
    unfolding velocity_def
  proof (rule for_loop_invariant[where I = ?I])
    show "?I 0 (0, 0)" by simp
    show "0 \<le> dc g" by simp
  next
    fix d t assume d: "d < dc g" and t: "?I d t"
    have "2 * (pc g + dc g * fr + d) + 1 < length x"
      by (rule coefficient_slot_in_range[OF len fr d])
    then show "\<exists>t'. (do {
       cx \<leftarrow> vget x (2 * (pc g + dc g * fr + d));
       cy \<leftarrow> vget x (2 * (pc g + dc g * fr + d) + 1);
       Some (fst t + cx * basis g p d, snd t + cy * basis g p d)
     }) = Some t' \<and> ?I (Suc d) t'"
      using t by (simp add: vget_def coefficient_def)
  qed
  then show ?thesis by (simp add: mode_sum_def)
qed

lemma track_eq:
  assumes len: "length x = param_count g"
    and p: "p < length pos" and row: "fc g \<le> length (pos ! p)"
  shows "\<exists>t. track g x p ((x ! (2 * p), x ! (2 * p + 1)), pos) = Some t \<and> track_inv g x p pos (fc g) t"
  unfolding track_def
proof (rule for_loop_invariant[where I = "track_inv g x p pos"])
  show "track_inv g x p pos 0 ((x ! (2 * p), x ! (2 * p + 1)), pos)"
    by (simp add: track_inv_def)
  show "0 \<le> fc g" by simp
next
  fix fr t assume fr: "fr < fc g" and t: "track_inv g x p pos fr t"
  obtain pp ps where tp: "t = (pp, ps)" by (cases t)
  have pp: "pp = trajectory g x p fr" and lps: "length ps = length pos"
    and rows: "\<forall>a<length pos. length (ps ! a) = length (pos ! a)"
    and ent: "\<forall>a<length pos. \<forall>k<length (pos ! a). ps ! a ! k = (if a = p \<and> k < fr then trajectory g x p k else pos ! a ! k)"
    using t fr by (auto simp: track_inv_def tp min_def)
  have w: "vput2 ps p fr pp = Some (ps[p := (ps ! p)[fr := pp]])"
    using p row fr lps rows by (intro vput2_eq) auto
  have inv': "track_inv g x p pos (Suc fr) (q, ps[p := (ps ! p)[fr := pp]])"
    if "q = trajectory g x p (min (Suc fr) (fc g - 1))" for q
    using that pp lps rows ent p
    by (auto simp: track_inv_def nth_list_update less_Suc_eq)
  show "\<exists>t'. (case t of (pp, pos) \<Rightarrow> do {
       pos' \<leftarrow> vput2 pos p fr pp;
       if fr < fc g - 1 then do {
         vel \<leftarrow> velocity g x p fr;
         Some (vplus pp vel, pos')
       } else Some (pp, pos')
     }) = Some t' \<and> track_inv g x p pos (Suc fr) t'"
  proof (cases "fr < fc g - 1")
    case True
    then show ?thesis
      using w inv'[of "vplus pp (mode_sum g x p fr)"] pp
      by (simp add: tp velocity_eq[OF len] min_def)
  next
    case False
    then have "min (Suc fr) (fc g - 1) = fr" using fr by (simp add: min_def)
    then show ?thesis
      using False w inv'[of pp] pp by (simp add: tp)
  qed
qed

lemma paramsToPos_grid:
  assumes len: "length x = param_count g"
    and rows: "pc g \<le> length pos" and cols: "\<forall>p<pc g. fc g \<le> length (pos ! p)"
  shows "\<exists>ps. paramsToPos g x pos = Some ps \<and> grid_inv g x pos (pc g) ps"
  unfolding paramsToPos_def
proof (rule for_loop_invariant[where I = "grid_inv g x pos"])
  show "grid_inv g x pos 0 pos" by (simp add: grid_inv_def)
  show "0 \<le> pc g" by simp
next
  fix p ps assume p: "p < pc g" and inv: "grid_inv g x pos p ps"
  have lps: "length ps = length pos" using inv by (simp add: grid_inv_def)
  have pl: "p < length ps" using p rows lps by simp
  have rl: "fc g \<le> length (ps ! p)" using inv p rows cols by (simp add: grid_inv_def)
  obtain pp ps' where tr: "track g x p ((x ! (2 * p), x ! (2 * p + 1)), ps) = Some (pp, ps')"
    and ti: "track_inv g x p ps (fc g) (pp, ps')"
    using track_eq[OF len pl rl] by (metis surj_pair)
  have "grid_inv g x pos (Suc p) ps'"
    using inv ti by (auto simp: grid_inv_def track_inv_def less_Suc_eq)
  moreover have "2 * p + 1 < length x" by (rule start_slot_in_range[OF len p])
  ultimately show "\<exists>t'. (do {
       x0 \<leftarrow> vget x (2 * p);
       x1 \<leftarrow> vget x (2 * p + 1);
       (pp, pos') \<leftarrow> track g x p ((x0, x1), ps);
       Some pos'
     }) = Some t' \<and> grid_inv g x pos (Suc p) t'"
    using tr by (simp add: vget_def)
qed

text \<open>
  C6. \<open>paramsToPos\<close> expands a parameter vector of the expected length into the grid: frame
  0 of particle \<open>p\<close> is \<open>(x[2p], x[2p+1])\<close>, and each later frame is the previous one plus
  the sum over the retained modes of the coefficient at offset \<open>2*(pc + dc*fr + d)\<close> times
  \<open>basis(p,d)\<close>. The result is a function of its arguments, the grid keeps its shape, and
  entries outside the \<open>pc\<close> by \<open>fc\<close> block are left as they were.
\<close>

theorem paramsToPos_expands:
  assumes len: "length x = param_count g"
    and rows: "pc g \<le> length pos" and cols: "\<forall>p<pc g. fc g \<le> length (pos ! p)"
  shows "\<exists>ps. paramsToPos g x pos = Some ps \<and>
    (\<forall>p<pc g.
       (0 < fc g \<longrightarrow> ps ! p ! 0 = (x ! (2 * p), x ! (2 * p + 1))) \<and>
       (\<forall>fr<fc g - 1. ps ! p ! (fr + 1) =
          vplus (ps ! p ! fr)
            (\<Sum>d<dc g. x ! (2 * (pc g + dc g * fr + d)) * basis g p d,
             \<Sum>d<dc g. x ! (2 * (pc g + dc g * fr + d) + 1) * basis g p d))) \<and>
    length ps = length pos \<and>
    (\<forall>a<length pos. length (ps ! a) = length (pos ! a) \<and>
       (\<forall>fr<length (pos ! a). \<not> (a < pc g \<and> fr < fc g) \<longrightarrow> ps ! a ! fr = pos ! a ! fr))"
proof -
  obtain ps where run: "paramsToPos g x pos = Some ps" and inv: "grid_inv g x pos (pc g) ps"
    using paramsToPos_grid[OF len rows cols] by blast
  have inside: "ps ! p ! fr = trajectory g x p fr" if "p < pc g" "fr < fc g" for p fr
    using inv that rows cols by (auto simp: grid_inv_def)
  have first: "ps ! p ! 0 = (x ! (2 * p), x ! (2 * p + 1))" if "p < pc g" "0 < fc g" for p
    using inside[OF that] by simp
  have later: "ps ! p ! (fr + 1) = vplus (ps ! p ! fr)
            (\<Sum>d<dc g. x ! (2 * (pc g + dc g * fr + d)) * basis g p d,
             \<Sum>d<dc g. x ! (2 * (pc g + dc g * fr + d) + 1) * basis g p d)"
    if "p < pc g" "fr < fc g - 1" for p fr
  proof -
    have "ps ! p ! (fr + 1) = trajectory g x p (Suc fr)" "ps ! p ! fr = trajectory g x p fr"
      using inside[of p "fr + 1"] inside[of p fr] that by auto
    then show ?thesis by (simp add: mode_sum_def coefficient_def)
  qed
  have frame: "length ps = length pos \<and>
    (\<forall>a<length pos. length (ps ! a) = length (pos ! a) \<and>
       (\<forall>fr<length (pos ! a). \<not> (a < pc g \<and> fr < fc g) \<longrightarrow> ps ! a ! fr = pos ! a ! fr))"
    using inv by (auto simp: grid_inv_def)
  show ?thesis
    using run first later frame by blast
qed

theorem paramsToPos_expands_witness:
  "length [1, 2, 3, 4, 5, 6 :: real] = param_count fit1 \<and>
   (\<exists>ps. paramsToPos fit1 [1, 2, 3, 4, 5, 6] (new_grid fit1) = Some ps \<and>
      ps ! 0 ! 0 = (1, 2) \<and> ps ! 0 ! 1 = (7, 10) \<and> ps ! 0 ! 2 = (17, 22))"
  using paramsToPos_expands[of "[1, 2, 3, 4, 5, 6]" fit1 "new_grid fit1"]
  by (auto simp: fit1_def param_count_def new_grid_def vplus_def eval_nat_numeral)

lemma new_grid_shape:
  "length (new_grid g) = pc g" "p < pc g \<Longrightarrow> length (new_grid g ! p) = fc g"
  by (simp_all add: new_grid_def)

lemma paramsToPos_new_grid:
  assumes len: "length x = param_count g"
  shows "\<exists>ps. paramsToPos g x (new_grid g) = Some ps \<and> length ps = pc g \<and>
           (\<forall>p<pc g. length (ps ! p) = fc g \<and> (\<forall>fr<fc g. ps ! p ! fr = trajectory g x p fr))"
proof -
  obtain ps where run: "paramsToPos g x (new_grid g) = Some ps"
    and inv: "grid_inv g x (new_grid g) (pc g) ps"
    using paramsToPos_grid[OF len, of "new_grid g"] by (auto simp: new_grid_shape)
  show ?thesis
    using run inv by (auto simp: grid_inv_def new_grid_shape)
qed

subsection \<open>The energy\<close>

lemma correlation_in_range:
  assumes "well_formed g" "p < pc g" "fr < fc g"
  shows "vget2 (correlation g) p fr = Some (correlation g ! p ! fr)"
  using assms by (intro vget2_eq) (auto simp: well_formed_def list_all_length)

lemma f_particle_eq:
  assumes wf: "well_formed g" and p: "p < pc g"
    and shape: "length ps = pc g" "\<forall>p<pc g. length (ps ! p) = fc g"
  shows "f_particle cubicXY g ps p = Some (- (\<Sum>fr<fc g. sample cubicXY g ps p fr))"
proof -
  have "f_particle cubicXY g ps p = Some (0 + (\<Sum>fr<fc g. - sample cubicXY g ps p fr))"
    unfolding f_particle_def
  proof (rule for_loop_sum)
    fix fr e assume fr: "fr < fc g"
    have "vget2 ps p fr = Some (ps ! p ! fr)" using shape p fr by (intro vget2_eq) auto
    moreover have "vget (perFrameOffsets g) fr = Some (perFrameOffsets g ! fr)"
      using wf fr by (simp add: vget_def well_formed_def)
    ultimately show "(do {
       img \<leftarrow> vget2 (correlation g) p fr;
       q \<leftarrow> vget2 ps p fr;
       off \<leftarrow> vget (perFrameOffsets g) fr;
       Some (e - cubicXY img (fst q + fst off) (snd q + snd off) 0 0 True)
     }) = Some (e + - sample cubicXY g ps p fr)"
      using correlation_in_range[OF wf p fr] by (simp add: sample_def)
  qed
  then show ?thesis by (simp add: sum_negf)
qed

lemma f_correlation_eq:
  assumes wf: "well_formed g"
    and shape: "length ps = pc g" "\<forall>p<pc g. length (ps ! p) = fc g"
  shows "f_correlation cubicXY g ps e0 = Some (e0 + (\<Sum>p<pc g. - (\<Sum>fr<fc g. sample cubicXY g ps p fr)))"
  unfolding f_correlation_def
  by (rule for_loop_sum) (simp add: f_particle_eq[OF wf _ shape])

lemma f_regulariser_eq:
  assumes len: "length x = param_count g"
  shows "f_regulariser g x e0 = Some (e0 + (\<Sum>fr<fc g - 1. \<Sum>d<dc g.
           fst (coefficient g x fr d) * fst (coefficient g x fr d) +
           snd (coefficient g x fr d) * snd (coefficient g x fr d)))"
  unfolding f_regulariser_def
proof (rule for_loop_sum)
  fix fr e assume fr: "fr < fc g - 1"
  show "for_loop [0..<dc g] (\<lambda>d e_tot. do {
         cx \<leftarrow> vget x (2 * (pc g + dc g * fr + d));
         cy \<leftarrow> vget x (2 * (pc g + dc g * fr + d) + 1);
         Some (e_tot + (cx * cx + cy * cy))
       }) e = Some (e + (\<Sum>d<dc g.
           fst (coefficient g x fr d) * fst (coefficient g x fr d) +
           snd (coefficient g x fr d) * snd (coefficient g x fr d)))"
  proof (rule for_loop_sum)
    fix d e' assume d: "d < dc g"
    have "2 * (pc g + dc g * fr + d) + 1 < length x"
      by (rule coefficient_slot_in_range[OF len fr d])
    then show "(do {
         cx \<leftarrow> vget x (2 * (pc g + dc g * fr + d));
         cy \<leftarrow> vget x (2 * (pc g + dc g * fr + d) + 1);
         Some (e' + (cx * cx + cy * cy))
       }) = Some (e' + (fst (coefficient g x fr d) * fst (coefficient g x fr d) +
           snd (coefficient g x fr d) * snd (coefficient g x fr d)))"
      by (simp add: vget_def coefficient_def)
  qed
qed

lemma f_acceleration_eq:
  assumes len: "length x = param_count g" and wf: "well_formed g"
  shows "f_acceleration g x e0 = Some (e0 + (\<Sum>fr<fc g - 2. \<Sum>d<dc g.
           eigenVals g ! d *
             ((fst (coefficient g x (fr + 1) d) - fst (coefficient g x fr d)) *
              (fst (coefficient g x (fr + 1) d) - fst (coefficient g x fr d)) +
              (snd (coefficient g x (fr + 1) d) - snd (coefficient g x fr d)) *
              (snd (coefficient g x (fr + 1) d) - snd (coefficient g x fr d)))
             / (sig_acc_px g * sig_acc_px g)))"
  unfolding f_acceleration_def
proof (rule for_loop_sum)
  fix fr e assume fr: "fr < fc g - 2"
  then have fr0: "fr < fc g - 1" and fr1: "fr + 1 < fc g - 1" by auto
  show "for_loop [0..<dc g] (\<lambda>d e_tot. do {
         cx0 \<leftarrow> vget x (2 * (pc g + dc g * fr + d));
         cy0 \<leftarrow> vget x (2 * (pc g + dc g * fr + d) + 1);
         cx1 \<leftarrow> vget x (2 * (pc g + dc g * (fr + 1) + d));
         cy1 \<leftarrow> vget x (2 * (pc g + dc g * (fr + 1) + d) + 1);
         let dcx = cx1 - cx0;
         let dcy = cy1 - cy0;
         ev \<leftarrow> vget (eigenVals g) d;
         Some (e_tot + ev * (dcx * dcx + dcy * dcy) / (sig_acc_px g * sig_acc_px g))
       }) e = Some (e + (\<Sum>d<dc g.
           eigenVals g ! d *
             ((fst (coefficient g x (fr + 1) d) - fst (coefficient g x fr d)) *
              (fst (coefficient g x (fr + 1) d) - fst (coefficient g x fr d)) +
              (snd (coefficient g x (fr + 1) d) - snd (coefficient g x fr d)) *
              (snd (coefficient g x (fr + 1) d) - snd (coefficient g x fr d)))
             / (sig_acc_px g * sig_acc_px g)))"
  proof (rule for_loop_sum)
    fix d e' assume d: "d < dc g"
    have a: "2 * (pc g + dc g * fr + d) + 1 < length x"
      by (rule coefficient_slot_in_range[OF len fr0 d])
    have b: "2 * (pc g + dc g * (fr + 1) + d) + 1 < length x"
      by (rule coefficient_slot_in_range[OF len fr1 d])
    have c: "d < length (eigenVals g)" using wf d by (simp add: well_formed_def)
    show "(do {
         cx0 \<leftarrow> vget x (2 * (pc g + dc g * fr + d));
         cy0 \<leftarrow> vget x (2 * (pc g + dc g * fr + d) + 1);
         cx1 \<leftarrow> vget x (2 * (pc g + dc g * (fr + 1) + d));
         cy1 \<leftarrow> vget x (2 * (pc g + dc g * (fr + 1) + d) + 1);
         let dcx = cx1 - cx0;
         let dcy = cy1 - cy0;
         ev \<leftarrow> vget (eigenVals g) d;
         Some (e' + ev * (dcx * dcx + dcy * dcy) / (sig_acc_px g * sig_acc_px g))
       }) = Some (e' +
           eigenVals g ! d *
             ((fst (coefficient g x (fr + 1) d) - fst (coefficient g x fr d)) *
              (fst (coefficient g x (fr + 1) d) - fst (coefficient g x fr d)) +
              (snd (coefficient g x (fr + 1) d) - snd (coefficient g x fr d)) *
              (snd (coefficient g x (fr + 1) d) - snd (coefficient g x fr d)))
             / (sig_acc_px g * sig_acc_px g))"
      using a b c by (simp add: vget_def coefficient_def Let_def)
  qed
qed

text \<open>
  C5. For a parameter vector of the expected length, \<open>f\<close> returns the sum of three terms:
  the negated interpolated correlation at position plus per-frame offset over all particles
  and frames, with the positions obtained by \<open>paramsToPos\<close>; the squared coefficients over all
  frame transitions and retained modes; and, only when \<open>sig_acc_px > 0\<close>, the eigenvalue-weighted
  squared differences of the coefficients of consecutive transitions over \<open>sig_acc_px\<^sup>2\<close>.
\<close>

theorem f_three_terms:
  assumes wf: "well_formed g" and len: "length x = param_count g"
  shows "\<exists>ps. paramsToPos g x (new_grid g) = Some ps \<and>
    f cubicXY g x = Some (
      - (\<Sum>p<pc g. \<Sum>fr<fc g.
           cubicXY (correlation g ! p ! fr)
             (fst (ps ! p ! fr) + fst (perFrameOffsets g ! fr))
             (snd (ps ! p ! fr) + snd (perFrameOffsets g ! fr)) 0 0 True)
      + (\<Sum>fr<fc g - 1. \<Sum>d<dc g.
           (x ! (2 * (pc g + dc g * fr + d)))\<^sup>2 + (x ! (2 * (pc g + dc g * fr + d) + 1))\<^sup>2)
      + (if sig_acc_px g > 0 then
           (\<Sum>fr<fc g - 2. \<Sum>d<dc g.
              eigenVals g ! d *
                ((x ! (2 * (pc g + dc g * (fr + 1) + d)) - x ! (2 * (pc g + dc g * fr + d)))\<^sup>2 +
                 (x ! (2 * (pc g + dc g * (fr + 1) + d) + 1) - x ! (2 * (pc g + dc g * fr + d) + 1))\<^sup>2)
                / (sig_acc_px g)\<^sup>2)
         else 0))"
proof -
  obtain ps where run: "paramsToPos g x (new_grid g) = Some ps"
    and shape: "length ps = pc g" "\<forall>p<pc g. length (ps ! p) = fc g"
    using paramsToPos_new_grid[OF len] by blast
  have "f cubicXY g x = Some (
      0 + (\<Sum>p<pc g. - (\<Sum>fr<fc g. sample cubicXY g ps p fr))
      + (\<Sum>fr<fc g - 1. \<Sum>d<dc g.
           fst (coefficient g x fr d) * fst (coefficient g x fr d) +
           snd (coefficient g x fr d) * snd (coefficient g x fr d))
      + (if sig_acc_px g > 0 then
           (\<Sum>fr<fc g - 2. \<Sum>d<dc g.
           eigenVals g ! d *
             ((fst (coefficient g x (fr + 1) d) - fst (coefficient g x fr d)) *
              (fst (coefficient g x (fr + 1) d) - fst (coefficient g x fr d)) +
              (snd (coefficient g x (fr + 1) d) - snd (coefficient g x fr d)) *
              (snd (coefficient g x (fr + 1) d) - snd (coefficient g x fr d)))
             / (sig_acc_px g * sig_acc_px g))
         else 0))"
    by (simp add: f_def run f_correlation_eq[OF wf shape] f_regulariser_eq[OF len]
        f_acceleration_eq[OF len wf])
  then have "f cubicXY g x = Some (
      - (\<Sum>p<pc g. \<Sum>fr<fc g. sample cubicXY g ps p fr)
      + (\<Sum>fr<fc g - 1. \<Sum>d<dc g.
           (fst (coefficient g x fr d))\<^sup>2 + (snd (coefficient g x fr d))\<^sup>2)
      + (if sig_acc_px g > 0 then
           (\<Sum>fr<fc g - 2. \<Sum>d<dc g.
           eigenVals g ! d *
             ((fst (coefficient g x (fr + 1) d) - fst (coefficient g x fr d))\<^sup>2 +
              (snd (coefficient g x (fr + 1) d) - snd (coefficient g x fr d))\<^sup>2)
             / (sig_acc_px g)\<^sup>2)
         else 0))"
    by (simp add: power2_eq_square sum_negf)
  then show ?thesis
    using run by (simp add: sample_def coefficient_def)
qed

lemma well_formed_fit1: "well_formed fit1"
  by (simp add: well_formed_def fit1_def)

theorem f_three_terms_witness:
  "well_formed fit1 \<and> length [1, 2, 3, 4, 5, 6 :: real] = param_count fit1 \<and>
   f ramp fit1 [1, 2, 3, 4, 5, 6] = Some 25"
proof -
  have len: "length [1, 2, 3, 4, 5, 6 :: real] = param_count fit1"
    by (simp add: param_count_def fit1_def)
  obtain ps where ps: "paramsToPos fit1 [1, 2, 3, 4, 5, 6] (new_grid fit1) = Some ps"
    "\<forall>p<pc fit1. length (ps ! p) = fc fit1 \<and> (\<forall>fr<fc fit1. ps ! p ! fr = trajectory fit1 [1, 2, 3, 4, 5, 6] p fr)"
    using paramsToPos_new_grid[OF len] by blast
  have tr: "ps ! 0 ! 0 = (1, 2)" "ps ! 0 ! 1 = (7, 10)" "ps ! 0 ! 2 = (17, 22)"
    using ps(2) by (simp_all add: fit1_def eval_nat_numeral mode_sum_def coefficient_def vplus_def)
  have "f ramp fit1 [1, 2, 3, 4, 5, 6] = Some 25"
    using f_three_terms[OF well_formed_fit1 len, of ramp] ps(1) tr
    by (simp add: fit1_def ramp_def eval_nat_numeral)
  then show ?thesis
    using well_formed_fit1 len by blast
qed

subsection \<open>Collapsing positions into parameters\<close>

lemma project_eq:
  assumes fr: "fr < fc g - 1"
    and shape: "pc g \<le> length ps" "\<forall>p<pc g. fc g \<le> length (ps ! p)"
  shows "project g ps fr d =
     Some (\<Sum>p<pc g. fst (vminus (ps ! p ! (fr + 1)) (ps ! p ! fr)) * basis g p d,
           \<Sum>p<pc g. snd (vminus (ps ! p ! (fr + 1)) (ps ! p ! fr)) * basis g p d)"
proof -
  let ?I = "\<lambda>n (c::d2Vector). c =
     (\<Sum>p<n. fst (vminus (ps ! p ! (fr + 1)) (ps ! p ! fr)) * basis g p d,
      \<Sum>p<n. snd (vminus (ps ! p ! (fr + 1)) (ps ! p ! fr)) * basis g p d)"
  have "\<exists>t. project g ps fr d = Some t \<and> ?I (pc g) t"
    unfolding project_def
  proof (rule for_loop_invariant[where I = ?I])
    show "?I 0 (0, 0)" by simp
    show "0 \<le> pc g" by simp
  next
    fix p t assume p: "p < pc g" and t: "?I p t"
    have a: "vget2 ps p (fr + 1) = Some (ps ! p ! (fr + 1))"
      using shape p fr by (intro vget2_eq) auto
    have b: "vget2 ps p fr = Some (ps ! p ! fr)"
      using shape p fr by (intro vget2_eq) auto
    show "\<exists>t'. (do {
       a \<leftarrow> vget2 ps p (fr + 1);
       b \<leftarrow> vget2 ps p fr;
       let v = vminus a b;
       Some (fst t + fst v * basis g p d, snd t + snd v * basis g p d)
     }) = Some t' \<and> ?I (Suc p) t'"
      using t a b by (simp add: Let_def)
  qed
  then show ?thesis by simp
qed

lemma trajectory_step:
  "vminus (trajectory g x p (Suc fr)) (trajectory g x p fr) = mode_sum g x p fr"
  by (simp add: vminus_def vplus_def)

lemma orthogonal_projection:
  fixes c :: "nat \<Rightarrow> real"
  assumes ortho: "\<forall>d<m. \<forall>d'<m. (\<Sum>p<n. B p d * B p d') = (if d = d' then ev d else 0)"
    and d: "d < m"
  shows "(\<Sum>p<n. (\<Sum>d'<m. c d' * B p d') * B p d) = c d * ev d"
proof -
  have "(\<Sum>p<n. (\<Sum>d'<m. c d' * B p d') * B p d) = (\<Sum>p<n. \<Sum>d'<m. c d' * (B p d' * B p d))"
    by (simp add: sum_distrib_right mult.assoc)
  also have "\<dots> = (\<Sum>d'<m. \<Sum>p<n. c d' * (B p d' * B p d))"
    by (rule sum.swap)
  also have "\<dots> = (\<Sum>d'<m. c d' * (\<Sum>p<n. B p d' * B p d))"
    by (simp add: sum_distrib_left)
  also have "\<dots> = (\<Sum>d'<m. if d' = d then c d' * ev d' else 0)"
    by (rule sum.cong) (use ortho d in auto)
  also have "\<dots> = c d * ev d"
    using d by (simp add: sum.delta)
  finally show ?thesis .
qed

lemma agrees_upto_store2:
  assumes "agrees_upto x k s" and "k + 1 < length x"
  shows "\<exists>s'. (do { t \<leftarrow> vput s k (x ! k); vput t (k + 1) (x ! (k + 1)) }) = Some s' \<and>
              agrees_upto x (k + 2) s'"
  using assms by (auto simp: agrees_upto_def vput_def nth_list_update)

lemma projected_coefficient:
  assumes len: "length x = param_count g" and fr: "fr < fc g - 1" and d: "d < dc g"
    and shape: "pc g \<le> length ps" "\<forall>p<pc g. fc g \<le> length (ps ! p)"
    and traj: "\<forall>p<pc g. \<forall>k<fc g. ps ! p ! k = trajectory g x p k"
    and ortho: "\<forall>d<dc g. \<forall>d'<dc g.
        (\<Sum>p<pc g. basis g p d * basis g p d') = (if d = d' then eigenVals g ! d else 0)"
  shows "project g ps fr d =
     Some (fst (coefficient g x fr d) * eigenVals g ! d, snd (coefficient g x fr d) * eigenVals g ! d)"
proof -
  have diff: "vminus (ps ! p ! Suc fr) (ps ! p ! fr) = mode_sum g x p fr" if "p < pc g" for p
    using traj that fr trajectory_step[of g x p fr] by simp
  have "(\<Sum>p<pc g. fst (vminus (ps ! p ! (fr + 1)) (ps ! p ! fr)) * basis g p d)
      = (\<Sum>p<pc g. (\<Sum>d'<dc g. fst (coefficient g x fr d') * basis g p d') * basis g p d)"
    by (rule sum.cong) (simp_all add: diff mode_sum_def)
  also have "\<dots> = fst (coefficient g x fr d) * eigenVals g ! d"
    by (rule orthogonal_projection[OF ortho d])
  finally have fstc: "(\<Sum>p<pc g. fst (vminus (ps ! p ! (fr + 1)) (ps ! p ! fr)) * basis g p d)
      = fst (coefficient g x fr d) * eigenVals g ! d" .
  have "(\<Sum>p<pc g. snd (vminus (ps ! p ! (fr + 1)) (ps ! p ! fr)) * basis g p d)
      = (\<Sum>p<pc g. (\<Sum>d'<dc g. snd (coefficient g x fr d') * basis g p d') * basis g p d)"
    by (rule sum.cong) (simp_all add: diff mode_sum_def)
  also have "\<dots> = snd (coefficient g x fr d) * eigenVals g ! d"
    by (rule orthogonal_projection[OF ortho d])
  finally have sndc: "(\<Sum>p<pc g. snd (vminus (ps ! p ! (fr + 1)) (ps ! p ! fr)) * basis g p d)
      = snd (coefficient g x fr d) * eigenVals g ! d" .
  show ?thesis
    by (simp only: project_eq[OF fr shape] fstc sndc)
qed

lemma posToParams_start:
  assumes len: "length x = param_count g" and dest: "length x0 = param_count g"
    and frames: "0 < fc g"
    and shape: "pc g \<le> length ps" "\<forall>p<pc g. fc g \<le> length (ps ! p)"
    and traj: "\<forall>p<pc g. \<forall>k<fc g. ps ! p ! k = trajectory g x p k"
  shows "\<exists>s. for_loop [0..<pc g] (\<lambda>p x. do {
       q \<leftarrow> vget2 ps p 0;
       x \<leftarrow> vput x (2 * p) (fst q);
       vput x (2 * p + 1) (snd q)
     }) x0 = Some s \<and> agrees_upto x (2 * pc g) s"
proof (rule for_loop_invariant[where I = "\<lambda>n. agrees_upto x (2 * n)"])
  show "agrees_upto x (2 * 0) x0" using len dest by (simp add: agrees_upto_def)
  show "0 \<le> pc g" by simp
next
  fix p t assume p: "p < pc g" and t: "agrees_upto x (2 * p) t"
  have "p < length ps" "0 < length (ps ! p)"
    using shape p frames by (auto intro: less_le_trans)
  then have "vget2 ps p 0 = Some (ps ! p ! 0)" by (rule vget2_eq)
  then have q: "vget2 ps p 0 = Some (x ! (2 * p), x ! (2 * p + 1))"
    using traj p frames by simp
  have "2 * p + 1 < length x" by (rule start_slot_in_range[OF len p])
  then show "\<exists>t'. (do {
       q \<leftarrow> vget2 ps p 0;
       x \<leftarrow> vput t (2 * p) (fst q);
       vput x (2 * p + 1) (snd q)
     }) = Some t' \<and> agrees_upto x (2 * Suc p) t'"
    using agrees_upto_store2[OF t] by (simp add: q)
qed

lemma posToParams_modes:
  assumes len: "length x = param_count g" and fr: "fr < fc g - 1"
    and evs: "length (eigenVals g) = dc g" and pos: "\<forall>d<dc g. 0 < eigenVals g ! d"
    and shape: "pc g \<le> length ps" "\<forall>p<pc g. fc g \<le> length (ps ! p)"
    and traj: "\<forall>p<pc g. \<forall>k<fc g. ps ! p ! k = trajectory g x p k"
    and ortho: "\<forall>d<dc g. \<forall>d'<dc g.
        (\<Sum>p<pc g. basis g p d * basis g p d') = (if d = d' then eigenVals g ! d else 0)"
    and s: "agrees_upto x (2 * (pc g + dc g * fr)) s"
  shows "\<exists>s'. for_loop [0..<dc g] (\<lambda>d x. do {
         c \<leftarrow> project g ps fr d;
         ev \<leftarrow> vget (eigenVals g) d;
         x \<leftarrow> vput x (2 * (pc g + dc g * fr + d)) (fst c / ev);
         vput x (2 * (pc g + dc g * fr + d) + 1) (snd c / ev)
       }) s = Some s' \<and> agrees_upto x (2 * (pc g + dc g * Suc fr)) s'"
proof -
  have "\<exists>s'. for_loop [0..<dc g] (\<lambda>d x. do {
         c \<leftarrow> project g ps fr d;
         ev \<leftarrow> vget (eigenVals g) d;
         x \<leftarrow> vput x (2 * (pc g + dc g * fr + d)) (fst c / ev);
         vput x (2 * (pc g + dc g * fr + d) + 1) (snd c / ev)
       }) s = Some s' \<and> agrees_upto x (2 * (pc g + dc g * fr + dc g)) s'"
  proof (rule for_loop_invariant[where I = "\<lambda>d. agrees_upto x (2 * (pc g + dc g * fr + d))"])
    show "agrees_upto x (2 * (pc g + dc g * fr + 0)) s" using s by simp
    show "0 \<le> dc g" by simp
  next
    fix d t assume d: "d < dc g" and t: "agrees_upto x (2 * (pc g + dc g * fr + d)) t"
    have c: "project g ps fr d =
       Some (fst (coefficient g x fr d) * eigenVals g ! d, snd (coefficient g x fr d) * eigenVals g ! d)"
      by (rule projected_coefficient[OF len fr d shape traj ortho])
    have ev: "vget (eigenVals g) d = Some (eigenVals g ! d)" "eigenVals g ! d \<noteq> 0"
      using evs pos d by (auto simp: vget_def)
    have r: "2 * (pc g + dc g * fr + d) + 1 < length x"
      by (rule coefficient_slot_in_range[OF len fr d])
    have "\<exists>t'. (do { u \<leftarrow> vput t (2 * (pc g + dc g * fr + d)) (x ! (2 * (pc g + dc g * fr + d)));
                     vput u (2 * (pc g + dc g * fr + d) + 1) (x ! (2 * (pc g + dc g * fr + d) + 1)) }) = Some t' \<and>
              agrees_upto x (2 * (pc g + dc g * fr + d) + 2) t'"
      by (rule agrees_upto_store2[OF t r])
    then show "\<exists>t'. (do {
         c \<leftarrow> project g ps fr d;
         ev \<leftarrow> vget (eigenVals g) d;
         x \<leftarrow> vput t (2 * (pc g + dc g * fr + d)) (fst c / ev);
         vput x (2 * (pc g + dc g * fr + d) + 1) (snd c / ev)
       }) = Some t' \<and> agrees_upto x (2 * (pc g + dc g * fr + Suc d)) t'"
      using ev by (simp add: c coefficient_def)
  qed
  then show ?thesis by (simp add: algebra_simps)
qed

text \<open>
  C7. For a parameter vector \<open>x\<close> of the expected length, \<open>paramsToPos\<close> followed by
  \<open>posToParams\<close> returns \<open>x\<close>, provided every retained eigenvalue is positive and the basis
  columns satisfy \<open>(\<Sum>p. basis(p,d) * basis(p,d')) = eigenVals[d]\<close> for \<open>d = d'\<close> and \<open>0\<close>
  otherwise.
\<close>

theorem params_pos_roundtrip:
  assumes len: "length x = param_count g" and dest: "length x0 = param_count g"
    and frames: "0 < fc g"
    and evs: "length (eigenVals g) = dc g" and pos: "\<forall>d<dc g. 0 < eigenVals g ! d"
    and ortho: "\<forall>d<dc g. \<forall>d'<dc g.
        (\<Sum>p<pc g. basis g p d * basis g p d') = (if d = d' then eigenVals g ! d else 0)"
  shows "\<exists>ps. paramsToPos g x (new_grid g) = Some ps \<and> posToParams g ps x0 = Some x"
proof -
  obtain ps where run: "paramsToPos g x (new_grid g) = Some ps"
    and sh: "length ps = pc g"
    and ent: "\<forall>p<pc g. length (ps ! p) = fc g \<and> (\<forall>fr<fc g. ps ! p ! fr = trajectory g x p fr)"
    using paramsToPos_new_grid[OF len] by blast
  have shape: "pc g \<le> length ps" "\<forall>p<pc g. fc g \<le> length (ps ! p)"
    and traj: "\<forall>p<pc g. \<forall>k<fc g. ps ! p ! k = trajectory g x p k"
    using sh ent by auto
  obtain s1 where s1: "for_loop [0..<pc g] (\<lambda>p x. do {
       q \<leftarrow> vget2 ps p 0;
       x \<leftarrow> vput x (2 * p) (fst q);
       vput x (2 * p + 1) (snd q)
     }) x0 = Some s1" and a1: "agrees_upto x (2 * pc g) s1"
    using posToParams_start[OF len dest frames shape traj] by blast
  have "\<exists>s2. for_loop [0..<fc g - 1] (\<lambda>fr x.
       for_loop [0..<dc g] (\<lambda>d x. do {
         c \<leftarrow> project g ps fr d;
         ev \<leftarrow> vget (eigenVals g) d;
         x \<leftarrow> vput x (2 * (pc g + dc g * fr + d)) (fst c / ev);
         vput x (2 * (pc g + dc g * fr + d) + 1) (snd c / ev)
       }) x) s1 = Some s2 \<and> agrees_upto x (2 * (pc g + dc g * (fc g - 1))) s2"
  proof (rule for_loop_invariant[where I = "\<lambda>fr. agrees_upto x (2 * (pc g + dc g * fr))"])
    show "agrees_upto x (2 * (pc g + dc g * 0)) s1" using a1 by simp
    show "0 \<le> fc g - 1" by simp
  next
    fix fr t assume "fr < fc g - 1" "agrees_upto x (2 * (pc g + dc g * fr)) t"
    then show "\<exists>t'. for_loop [0..<dc g] (\<lambda>d x. do {
         c \<leftarrow> project g ps fr d;
         ev \<leftarrow> vget (eigenVals g) d;
         x \<leftarrow> vput x (2 * (pc g + dc g * fr + d)) (fst c / ev);
         vput x (2 * (pc g + dc g * fr + d) + 1) (snd c / ev)
       }) t = Some t' \<and> agrees_upto x (2 * (pc g + dc g * Suc fr)) t'"
      by (intro posToParams_modes[OF len _ evs pos shape traj ortho])
  qed
  then obtain s2 where s2: "for_loop [0..<fc g - 1] (\<lambda>fr x.
       for_loop [0..<dc g] (\<lambda>d x. do {
         c \<leftarrow> project g ps fr d;
         ev \<leftarrow> vget (eigenVals g) d;
         x \<leftarrow> vput x (2 * (pc g + dc g * fr + d)) (fst c / ev);
         vput x (2 * (pc g + dc g * fr + d) + 1) (snd c / ev)
       }) x) s1 = Some s2" and a2: "agrees_upto x (2 * (pc g + dc g * (fc g - 1))) s2"
    by blast
  have "s2 = x"
    using a2 len by (intro nth_equalityI) (auto simp: agrees_upto_def param_count_def algebra_simps)
  then have "posToParams g ps x0 = Some x"
    using s1 s2 by (simp add: posToParams_def)
  then show ?thesis using run by blast
qed

theorem params_pos_roundtrip_witness:
  "length [1, 2, 3, 4, 5, 6 :: real] = param_count fit1 \<and>
   (\<exists>ps. paramsToPos fit1 [1, 2, 3, 4, 5, 6] (new_grid fit1) = Some ps \<and>
         posToParams fit1 ps [0, 0, 0, 0, 0, 0] = Some [1, 2, 3, 4, 5, 6])"
proof -
  have len: "length [1, 2, 3, 4, 5, 6 :: real] = param_count fit1"
    and dest: "length [0, 0, 0, 0, 0, 0 :: real] = param_count fit1"
    by (simp_all add: param_count_def fit1_def)
  have frames: "0 < fc fit1" and evs: "length (eigenVals fit1) = dc fit1"
    and pos: "\<forall>d<dc fit1. 0 < eigenVals fit1 ! d"
    and ortho: "\<forall>d<dc fit1. \<forall>d'<dc fit1.
        (\<Sum>p<pc fit1. basis fit1 p d * basis fit1 p d') = (if d = d' then eigenVals fit1 ! d else 0)"
    by (simp_all add: fit1_def)
  show ?thesis
    using params_pos_roundtrip[OF len dest frames evs pos ortho] len by blast
qed

subsection \<open>The gradient: zeroing and the range of its accesses\<close>

lemma grad_zero_eq: "grad_zero gd = Some (replicate (length gd) 0)"
proof -
  let ?I = "\<lambda>n (s::real list). length s = length gd \<and> (\<forall>i<n. s ! i = 0)"
  have "\<exists>s. grad_zero gd = Some s \<and> ?I (length gd) s"
    unfolding grad_zero_def
    by (rule for_loop_invariant[where I = ?I])
      (auto simp: vput_def nth_list_update less_Suc_eq)
  then obtain s where s: "grad_zero gd = Some s" "length s = length gd" "\<forall>i<length gd. s ! i = 0"
    by blast
  have "s = replicate (length gd) 0"
    using s(2,3) by (intro nth_equalityI) auto
  then show ?thesis using s(1) by simp
qed

text \<open>
  C10. \<open>grad\<close> sets every entry of \<open>gradDest\<close> to zero before it accumulates, so two calls with
  the same \<open>x\<close> and two destination vectors of the expected length give the same result,
  whatever the vectors held before.
\<close>

theorem grad_ignores_prior_contents:
  assumes "length gd1 = param_count g" and "length gd2 = param_count g"
  shows "grad cubicXYgrad g x gd1 = grad cubicXYgrad g x gd2"
  using assms by (simp add: grad_def grad_zero_eq)

theorem grad_ignores_prior_contents_witness:
  "length [0, 0, 0, 0, 0, 0 :: real] = param_count fit1 \<and>
   length [9, 8, 7, 6, 5, 4 :: real] = param_count fit1 \<and>
   grad ramp_grad fit1 [1, 2, 3, 4, 5, 6] [0, 0, 0, 0, 0, 0] =
   grad ramp_grad fit1 [1, 2, 3, 4, 5, 6] [9, 8, 7, 6, 5, 4] \<and>
   grad ramp_grad fit1 [1, 2, 3, 4, 5, 6] [9, 8, 7, 6, 5, 4] = Some [3, 6, - 14, - 16, 24, 24]"
proof -
  have l1: "length [0, 0, 0, 0, 0, 0 :: real] = param_count fit1"
    and l2: "length [9, 8, 7, 6, 5, 4 :: real] = param_count fit1"
    by (simp_all add: param_count_def fit1_def)
  have v: "grad ramp_grad fit1 [1, 2, 3, 4, 5, 6] [0, 0, 0, 0, 0, 0] = Some [3, 6, - 14, - 16, 24, 24]"
    by (simp add: grad_def grad_zero_eq fit1_def ramp_grad_def eval_defs)
  show ?thesis
    using grad_ignores_prior_contents[OF l1 l2, of ramp_grad "[1, 2, 3, 4, 5, 6]"] l1 l2 v
    by simp
qed

lemma grid_shape_vput2:
  assumes "grid_shape g ps" "p < pc g" "fr < fc g"
  shows "\<exists>ps'. vput2 ps p fr v = Some ps' \<and> grid_shape g ps'"
  using assms by (auto simp: grid_shape_def vput2_def vget_def vput_def nth_list_update)

lemma grad_ccg_in_range:
  assumes wf: "well_formed g" and sh: "grid_shape g ps"
  shows "\<exists>ccg. grad_ccg cubicXYgrad g ps = Some ccg \<and> grid_shape g ccg"
  unfolding grad_ccg_def
proof (rule for_loop_preserves[where I = "grid_shape g"])
  show "grid_shape g (new_grid g)" by (simp add: grid_shape_def new_grid_def)
next
  fix p t assume p: "p \<in> set [0..<pc g]" and t: "grid_shape g (t :: d2Vector list list)"
  show "\<exists>t'. for_loop [0..<fc g] (\<lambda>fr ccg_pf. do {
         img \<leftarrow> vget2 (correlation g) p fr;
         q \<leftarrow> vget2 ps p fr;
         off \<leftarrow> vget (perFrameOffsets g) fr;
         vput2 ccg_pf p fr (cubicXYgrad img (fst q + fst off) (snd q + snd off) 0 0 True)
       }) t = Some t' \<and> grid_shape g t'"
  proof (rule for_loop_preserves[where I = "grid_shape g"])
    show "grid_shape g t" by (rule t)
  next
    fix fr u assume fr: "fr \<in> set [0..<fc g]" and u: "grid_shape g (u :: d2Vector list list)"
    have a: "vget2 (correlation g) p fr = Some (correlation g ! p ! fr)"
      using correlation_in_range[OF wf, of p fr] p fr by simp
    have b: "vget2 ps p fr = Some (ps ! p ! fr)"
      using sh p fr by (intro vget2_eq) (auto simp: grid_shape_def)
    have c: "vget (perFrameOffsets g) fr = Some (perFrameOffsets g ! fr)"
      using wf fr by (simp add: vget_def well_formed_def)
    show "\<exists>t'. (do {
         img \<leftarrow> vget2 (correlation g) p fr;
         q \<leftarrow> vget2 ps p fr;
         off \<leftarrow> vget (perFrameOffsets g) fr;
         vput2 u p fr (cubicXYgrad img (fst q + fst off) (snd q + snd off) 0 0 True)
       }) = Some t' \<and> grid_shape g t'"
      using grid_shape_vput2[OF u, of p fr] p fr by (simp add: a b c)
  qed
qed

lemma grad_start_in_range:
  assumes sh: "grid_shape g ccg" and len: "length gd = param_count g"
  shows "\<exists>gd'. grad_start g ccg gd = Some gd' \<and> length gd' = param_count g"
  unfolding grad_start_def
proof (rule for_loop_preserves[where I = "\<lambda>t. length t = param_count g"])
  show "length gd = param_count g" by (rule len)
next
  fix p t assume p: "p \<in> set [0..<pc g]" and t: "length (t :: real list) = param_count g"
  show "\<exists>t'. for_loop [0..<fc g] (\<lambda>fr gd. do {
         c \<leftarrow> vget2 ccg p fr;
         gd \<leftarrow> vadd gd (2 * p) (fst c);
         vadd gd (2 * p + 1) (snd c)
       }) t = Some t' \<and> length t' = param_count g"
  proof (rule for_loop_preserves[where I = "\<lambda>t. length t = param_count g"])
    show "length t = param_count g" by (rule t)
  next
    fix fr u assume fr: "fr \<in> set [0..<fc g]" and u: "length (u :: real list) = param_count g"
    have c: "vget2 ccg p fr = Some (ccg ! p ! fr)"
      using sh p fr by (intro vget2_eq) (auto simp: grid_shape_def)
    have r: "2 * p + 1 < param_count g" using p by (simp add: param_count_def)
    show "\<exists>t'. (do {
         c \<leftarrow> vget2 ccg p fr;
         gd \<leftarrow> vadd u (2 * p) (fst c);
         vadd gd (2 * p + 1) (snd c)
       }) = Some t' \<and> length t' = param_count g"
      using vadd_pair_in_range[OF r u] by (simp add: c)
  qed
qed

lemma grad_coefficients_in_range:
  assumes sh: "grid_shape g ccg" and len: "length gd = param_count g"
  shows "\<exists>gd'. grad_coefficients g ccg gd = Some gd' \<and> length gd' = param_count g"
  unfolding grad_coefficients_def
proof (rule for_loop_preserves[where I = "\<lambda>t. length t = param_count g"])
  show "length gd = param_count g" by (rule len)
next
  fix d t assume d: "d \<in> set [0..<dc g]" and t: "length (t :: real list) = param_count g"
  show "\<exists>t'. for_loop [0..<pc g] (\<lambda>p gd. do {
         (gs, gd) \<leftarrow> for_loop (rev [0..<fc g - 1]) (\<lambda>fr (gs, gd). do {
           c \<leftarrow> vget2 ccg p fr;
           let gs = (fst gs + basis g p d * fst c, snd gs + basis g p d * snd c);
           gd \<leftarrow> vadd gd (2 * (pc g + dc g * fr + d)) (- fst gs);
           gd \<leftarrow> vadd gd (2 * (pc g + dc g * fr + d) + 1) (- snd gs);
           Some (gs, gd)
         }) ((0, 0), gd);
         Some gd
       }) t = Some t' \<and> length t' = param_count g"
  proof (rule for_loop_preserves[where I = "\<lambda>t. length t = param_count g"])
    show "length t = param_count g" by (rule t)
  next
    fix p u assume p: "p \<in> set [0..<pc g]" and u: "length (u :: real list) = param_count g"
    have "\<exists>w. for_loop (rev [0..<fc g - 1]) (\<lambda>fr (gs, gd). do {
           c \<leftarrow> vget2 ccg p fr;
           let gs = (fst gs + basis g p d * fst c, snd gs + basis g p d * snd c);
           gd \<leftarrow> vadd gd (2 * (pc g + dc g * fr + d)) (- fst gs);
           gd \<leftarrow> vadd gd (2 * (pc g + dc g * fr + d) + 1) (- snd gs);
           Some (gs, gd)
         }) ((0, 0), u) = Some w \<and> length (snd w) = param_count g"
    proof (rule for_loop_preserves[where I = "\<lambda>w. length (snd w) = param_count g"])
      show "length (snd ((0::real, 0::real), u)) = param_count g" using u by simp
    next
      fix fr w assume fr: "fr \<in> set (rev [0..<fc g - 1])"
        and w: "length (snd (w :: d2Vector \<times> real list)) = param_count g"
      obtain gs gd1 where wp: "w = (gs, gd1)" by (cases w)
      have c: "vget2 ccg p fr = Some (ccg ! p ! fr)"
        using sh p fr by (intro vget2_eq) (auto simp: grid_shape_def)
      have r: "2 * (pc g + dc g * fr + d) + 1 < param_count g"
        using slot_in_range[of fr g d] fr d by simp
      obtain gd2 where gd2: "(do { t \<leftarrow> vadd gd1 (2 * (pc g + dc g * fr + d)) (- (fst gs + basis g p d * fst (ccg ! p ! fr)));
            vadd t (2 * (pc g + dc g * fr + d) + 1) (- (snd gs + basis g p d * snd (ccg ! p ! fr))) }) = Some gd2"
          "length gd2 = param_count g"
        using vadd_pair_in_range[OF r, of gd1] w wp by auto
      show "\<exists>t'. (case w of (gs, gd) \<Rightarrow> do {
           c \<leftarrow> vget2 ccg p fr;
           let gs = (fst gs + basis g p d * fst c, snd gs + basis g p d * snd c);
           gd \<leftarrow> vadd gd (2 * (pc g + dc g * fr + d)) (- fst gs);
           gd \<leftarrow> vadd gd (2 * (pc g + dc g * fr + d) + 1) (- snd gs);
           Some (gs, gd)
         }) = Some t' \<and> length (snd t') = param_count g"
        using gd2 by (auto simp: wp c Let_def split: Option.bind_splits)
    qed
    then show "\<exists>t'. (do {
         (gs, gd) \<leftarrow> for_loop (rev [0..<fc g - 1]) (\<lambda>fr (gs, gd). do {
           c \<leftarrow> vget2 ccg p fr;
           let gs = (fst gs + basis g p d * fst c, snd gs + basis g p d * snd c);
           gd \<leftarrow> vadd gd (2 * (pc g + dc g * fr + d)) (- fst gs);
           gd \<leftarrow> vadd gd (2 * (pc g + dc g * fr + d) + 1) (- snd gs);
           Some (gs, gd)
         }) ((0, 0), u);
         Some gd
       }) = Some t' \<and> length t' = param_count g"
      by (auto split: prod.splits)
  qed
qed

lemma grad_regulariser_in_range:
  assumes full: "pc g \<le> dc g" and lx: "length x = param_count g" and len: "length gd = param_count g"
  shows "\<exists>gd'. grad_regulariser g x gd = Some gd' \<and> length gd' = param_count g"
  unfolding grad_regulariser_def grad_regulariser_frame_def
proof (rule for_loop_preserves[where I = "\<lambda>t. length t = param_count g"])
  show "length gd = param_count g" by (rule len)
next
  fix fr t assume fr: "fr \<in> set [0..<fc g - 1]" and t: "length (t :: real list) = param_count g"
  show "\<exists>t'. for_loop [0..<pc g] (\<lambda>d gd. do {
       a \<leftarrow> vget x (2 * (pc g + dc g * fr + d));
       gd \<leftarrow> vadd gd (2 * (pc g + dc g * fr + d)) (2 * a);
       b \<leftarrow> vget x (2 * (pc g + dc g * fr + d) + 1);
       vadd gd (2 * (pc g + dc g * fr + d) + 1) (2 * b)
     }) t = Some t' \<and> length t' = param_count g"
  proof (rule for_loop_preserves[where I = "\<lambda>t. length t = param_count g"])
    show "length t = param_count g" by (rule t)
  next
    fix d u assume d: "d \<in> set [0..<pc g]" and u: "length (u :: real list) = param_count g"
    have r: "2 * (pc g + dc g * fr + d) + 1 < param_count g"
      using slot_in_range[of fr g d] fr d full by simp
    show "\<exists>t'. (do {
       a \<leftarrow> vget x (2 * (pc g + dc g * fr + d));
       gd \<leftarrow> vadd u (2 * (pc g + dc g * fr + d)) (2 * a);
       b \<leftarrow> vget x (2 * (pc g + dc g * fr + d) + 1);
       vadd gd (2 * (pc g + dc g * fr + d) + 1) (2 * b)
     }) = Some t' \<and> length t' = param_count g"
      using r u lx by (simp add: vadd_def vget_def vput_def)
  qed
qed

lemma grad_acceleration_in_range:
  assumes wf: "well_formed g" and lx: "length x = param_count g" and len: "length gd = param_count g"
  shows "\<exists>gd'. grad_acceleration g x gd = Some gd' \<and> length gd' = param_count g"
  unfolding grad_acceleration_def Let_def
proof (rule for_loop_preserves[where I = "\<lambda>t. length t = param_count g"])
  show "length gd = param_count g" by (rule len)
next
  fix fr t assume fr: "fr \<in> set [0..<fc g - 2]" and t: "length (t :: real list) = param_count g"
  show "\<exists>t'. for_loop [0..<dc g] (\<lambda>d gd. do {
          cx0 \<leftarrow> vget x (2 * (pc g + dc g * fr + d));
          cy0 \<leftarrow> vget x (2 * (pc g + dc g * fr + d) + 1);
          cx1 \<leftarrow> vget x (2 * (pc g + dc g * (fr + 1) + d));
          cy1 \<leftarrow> vget x (2 * (pc g + dc g * (fr + 1) + d) + 1);
          ev \<leftarrow> vget (eigenVals g) d;
          gd \<leftarrow> vadd gd (2 * (pc g + dc g * fr + d)) (- (2 * ev * (cx1 - cx0) / (sig_acc_px g * sig_acc_px g)));
          gd \<leftarrow> vadd gd (2 * (pc g + dc g * fr + d) + 1) (- (2 * ev * (cy1 - cy0) / (sig_acc_px g * sig_acc_px g)));
          gd \<leftarrow> vadd gd (2 * (pc g + dc g * (fr + 1) + d)) (2 * ev * (cx1 - cx0) / (sig_acc_px g * sig_acc_px g));
          vadd gd (2 * (pc g + dc g * (fr + 1) + d) + 1) (2 * ev * (cy1 - cy0) / (sig_acc_px g * sig_acc_px g))
        }) t = Some t' \<and> length t' = param_count g"
  proof (rule for_loop_preserves[where I = "\<lambda>t. length t = param_count g"])
    show "length t = param_count g" by (rule t)
  next
    fix d u assume d: "d \<in> set [0..<dc g]" and u: "length (u :: real list) = param_count g"
    have r0: "2 * (pc g + dc g * fr + d) + 1 < param_count g"
      using slot_in_range[of fr g d] fr d by simp
    have r1: "2 * (pc g + dc g * (fr + 1) + d) + 1 < param_count g"
      using slot_in_range[of "fr + 1" g d] fr d by simp
    have e: "d < length (eigenVals g)" using wf d by (simp add: well_formed_def)
    show "\<exists>t'. (do {
          cx0 \<leftarrow> vget x (2 * (pc g + dc g * fr + d));
          cy0 \<leftarrow> vget x (2 * (pc g + dc g * fr + d) + 1);
          cx1 \<leftarrow> vget x (2 * (pc g + dc g * (fr + 1) + d));
          cy1 \<leftarrow> vget x (2 * (pc g + dc g * (fr + 1) + d) + 1);
          ev \<leftarrow> vget (eigenVals g) d;
          gd \<leftarrow> vadd u (2 * (pc g + dc g * fr + d)) (- (2 * ev * (cx1 - cx0) / (sig_acc_px g * sig_acc_px g)));
          gd \<leftarrow> vadd gd (2 * (pc g + dc g * fr + d) + 1) (- (2 * ev * (cy1 - cy0) / (sig_acc_px g * sig_acc_px g)));
          gd \<leftarrow> vadd gd (2 * (pc g + dc g * (fr + 1) + d)) (2 * ev * (cx1 - cx0) / (sig_acc_px g * sig_acc_px g));
          vadd gd (2 * (pc g + dc g * (fr + 1) + d) + 1) (2 * ev * (cy1 - cy0) / (sig_acc_px g * sig_acc_px g))
        }) = Some t' \<and> length t' = param_count g"
      using r0 r1 e u lx by (simp add: vadd_def vget_def vput_def)
  qed
qed

text \<open>
  Without truncation (\<open>dc = pc\<close>) every access of \<open>grad\<close> stays in range: on a well-formed
  object and vectors of the expected length it returns a vector of that length.
\<close>

lemma grad_in_range_without_truncation:
  assumes wf: "well_formed g" and full: "dc g = pc g"
    and lx: "length x = param_count g" and len: "length gd = param_count g"
  shows "\<exists>r. grad cubicXYgrad g x gd = Some r \<and> length r = param_count g"
proof -
  obtain ps where ps: "paramsToPos g x (new_grid g) = Some ps" "grid_shape g ps"
    using paramsToPos_new_grid[OF lx] by (auto simp: grid_shape_def)
  obtain ccg where ccg: "grad_ccg cubicXYgrad g ps = Some ccg" "grid_shape g ccg"
    using grad_ccg_in_range[OF wf ps(2)] by blast
  have z: "grad_zero gd = Some (replicate (param_count g) 0)"
    using len by (simp add: grad_zero_eq)
  obtain g1 where g1: "grad_start g ccg (replicate (param_count g) 0) = Some g1" "length g1 = param_count g"
    using grad_start_in_range[OF ccg(2), of "replicate (param_count g) 0"] by auto
  obtain g2 where g2: "grad_coefficients g ccg g1 = Some g2" "length g2 = param_count g"
    using grad_coefficients_in_range[OF ccg(2) g1(2)] by blast
  obtain g3 where g3: "grad_regulariser g x g2 = Some g3" "length g3 = param_count g"
    using grad_regulariser_in_range[OF _ lx g2(2)] full by auto
  obtain g4 where g4: "grad_acceleration g x g3 = Some g4" "length g4 = param_count g"
    using grad_acceleration_in_range[OF wf lx g3(2)] by blast
  show ?thesis
    by (simp add: grad_def ps ccg z g1 g2 g3 g4)
qed

text \<open>
  C4, evaluated on \<open>fit2\<close>, where \<open>dc = 1 < pc = 2\<close>, with \<open>x\<close> and \<open>gradDest\<close> of the expected
  length 8: \<open>grad\<close> accesses a vector outside its range. Everything up to the regularization
  loop stays in range; that loop reaches index \<open>2 * (pc + dc * 1 + 1) = 8\<close>.
\<close>

theorem grad_leaves_vector_range:
  "well_formed fit2 \<and> dc fit2 < pc fit2 \<and>
   length [0, 0, 0, 0, 0, 0, 0, 0 :: real] = param_count fit2 \<and>
   2 * (pc fit2 + dc fit2 * 1 + 1) = param_count fit2 \<and>
   (\<exists>ps ccg_pf.
      paramsToPos fit2 [0, 0, 0, 0, 0, 0, 0, 0] (new_grid fit2) = Some ps \<and>
      grad_ccg ramp_grad fit2 ps = Some ccg_pf \<and>
      grad_start fit2 ccg_pf [0, 0, 0, 0, 0, 0, 0, 0] = Some [3, 6, 3, 6, 0, 0, 0, 0] \<and>
      grad_coefficients fit2 ccg_pf [3, 6, 3, 6, 0, 0, 0, 0] = Some [3, 6, 3, 6, - 4, - 8, - 2, - 4]) \<and>
   grad_regulariser fit2 [0, 0, 0, 0, 0, 0, 0, 0] [3, 6, 3, 6, - 4, - 8, - 2, - 4] = None \<and>
   grad ramp_grad fit2 [0, 0, 0, 0, 0, 0, 0, 0] [0, 0, 0, 0, 0, 0, 0, 0] = None"
  by (simp add: well_formed_def param_count_def grad_def grad_zero_eq fit2_def ramp_grad_def eval_defs)

text \<open>
  C2, evaluated on \<open>fit2\<close>, where \<open>dc = 1 < pc = 2\<close>. The regularization loop of frame
  transition 0 adds \<open>2 * x\<close> to slots 4 and 5, the slots of its one retained mode, and also to
  slots 6 and 7, which belong to transition 1; the whole loop then leaves the vector at
  transition 1.
\<close>

theorem grad_regulariser_counts_to_pc:
  "dc fit2 < pc fit2 \<and>
   length [1, 2, 3, 4, 5, 6, 7, 8 :: real] = param_count fit2 \<and>
   grad_regulariser_frame fit2 [1, 2, 3, 4, 5, 6, 7, 8] 0 [0, 0, 0, 0, 0, 0, 0, 0]
     = Some [0, 0, 0, 0, 10, 12, 14, 16] \<and>
   grad_regulariser fit2 [1, 2, 3, 4, 5, 6, 7, 8] [0, 0, 0, 0, 0, 0, 0, 0] = None"
  by (simp add: param_count_def fit2_def eval_defs)

subsection \<open>The gradient against the energy\<close>

lemma plane_grad_is_derivative:
  "((\<lambda>s. plane img s v z n w) has_real_derivative fst (plane_grad img u v z n w)) (at u)"
  "((\<lambda>s. plane img u s z n w) has_real_derivative snd (plane_grad img u v z n w)) (at v)"
  by (auto simp: plane_def plane_grad_def intro!: derivative_eq_intros)

lemma f_fit3_slot0: "f plane fit3 [t, 0, 0, 0] = Some (- t)"
  by (simp add: f_def f_correlation_def f_particle_def f_regulariser_def fit3_def plane_def eval_defs)

lemma f_fit3_slot2: "f plane fit3 [0, 0, t, 0] = Some (t * t)"
  by (simp add: f_def f_correlation_def f_particle_def f_regulariser_def fit3_def plane_def eval_defs)

text \<open>
  C3, evaluated on \<open>fit3\<close>. The correlation gradients are \<open>(1, 0)\<close> in frame 0 and \<open>(0, 0)\<close> in
  frame 1. The coefficient of transition 0 moves frame 1 only, where the basis-weighted
  gradient is \<open>0\<close>; the loop subtracts the gradient of frame 0 and leaves \<open>-1\<close> in slot 2.
\<close>

theorem grad_coefficients_uses_frame_of_transition:
  "grad_ccg plane_grad fit3 [[(0, 0), (0, 0)]] = Some [[(1, 0), (0, 0)]] \<and>
   grad_coefficients fit3 [[(1, 0), (0, 0)]] [0, 0, 0, 0] = Some [0, 0, - 1, 0] \<and>
   (\<Sum>p<pc fit3. \<Sum>k = 0 + 1..<fc fit3. basis fit3 p 0 * fst ([[(1, 0), (0, 0)]] ! p ! k)) = (0::real)"
  by (simp add: fit3_def plane_grad_def eval_defs eval_nat_numeral)

text \<open>
  C1, evaluated on \<open>fit3\<close> with plane images, whose gradient mode is the derivative of the
  interpolated value. At \<open>x = 0\<close> the energy has derivative \<open>-1\<close> along slot 0 and \<open>0\<close> along
  slot 2, while \<open>grad\<close> returns \<open>1\<close> in slot 0 and \<open>-1\<close> in slot 2.
\<close>

theorem grad_differs_from_derivative_of_f:
  "length [0, 0, 0, 0 :: real] = param_count fit3 \<and>
   ((\<lambda>t. the (f plane fit3 [t, 0, 0, 0])) has_real_derivative - 1) (at 0) \<and>
   ((\<lambda>t. the (f plane fit3 [0, 0, t, 0])) has_real_derivative 0) (at 0) \<and>
   grad plane_grad fit3 [0, 0, 0, 0] [0, 0, 0, 0] = Some [1, 0, - 1, 0]"
proof -
  have "length [0, 0, 0, 0 :: real] = param_count fit3"
    by (simp add: param_count_def fit3_def)
  moreover have "((\<lambda>t. the (f plane fit3 [t, 0, 0, 0])) has_real_derivative - 1) (at 0)"
    by (simp only: f_fit3_slot0 option.sel) (auto intro!: derivative_eq_intros)
  moreover have "((\<lambda>t. the (f plane fit3 [0, 0, t, 0])) has_real_derivative 0) (at 0)"
    by (simp only: f_fit3_slot2 option.sel) (auto intro!: derivative_eq_intros)
  moreover have "grad plane_grad fit3 [0, 0, 0, 0] [0, 0, 0, 0] = Some [1, 0, - 1, 0]"
    by (simp add: grad_def grad_zero_eq fit3_def plane_grad_def eval_defs eval_nat_numeral)
  ultimately show ?thesis by blast
qed

end
